theory Spec2Isabelle
  imports Main "HOL-Library.Sublist" "HOL-Library.Word"
begin

section \<open>Python values shared by the three services\<close>

text \<open>
  The repository is three FastAPI services: the gateway (\<^verbatim>\<open>api-gateway/main.py\<close>), the
  media processor (\<^verbatim>\<open>media-processor/main.py\<close>) and the speech synthesizer
  (\<^verbatim>\<open>text-to-speech/main.py\<close>). Each handler is embedded as a function from its
  request and the state it can touch (the files on disk and the log of calls it makes to
  things outside the process) to its outcome and the new state.

  A Python \<^verbatim>\<open>str\<close> is modelled as a \<^typ>\<open>string\<close>: a list of code points below 256.
  \<^verbatim>\<open>bytes\<close> is a list of 8-bit words. A file system is a partial map from paths to the
  bytes of the regular file stored there; directories are not modelled.
\<close>

type_synonym bytes = "8 word list"
type_synonym path = string
type_synonym filesystem = "path \<rightharpoonup> bytes"

text \<open>
  An exception is either FastAPI's \<^verbatim>\<open>HTTPException(status_code, detail)\<close> or any other
  subclass of \<^verbatim>\<open>Exception\<close>, kept by its \<^verbatim>\<open>str()\<close>. Both are instances of
  \<^verbatim>\<open>Exception\<close>, so an \<^verbatim>\<open>except Exception\<close> clause catches both.
\<close>

datatype exn = HTTPException nat string | Exception string

text \<open>
  \<^verbatim>\<open>str(e)\<close>. What it gives for an \<^verbatim>\<open>HTTPException\<close> is decided by the web framework,
  not by this repository, so it is a parameter \<open>h\<close> of the model.
\<close>

fun exc_str :: "(nat \<Rightarrow> string \<Rightarrow> string) \<Rightarrow> exn \<Rightarrow> string" where
  "exc_str h (HTTPException c d) = h c d"
| "exc_str h (Exception m) = m"

fun exc_status :: "exn \<Rightarrow> nat option" where
  "exc_status (HTTPException c d) = Some c"
| "exc_status (Exception m) = None"

text \<open>How writing a file turns out: \<^verbatim>\<open>open(p, "wb")\<close> followed by \<^verbatim>\<open>write\<close>.\<close>

datatype write_outcome =
    Written
  | OpenFailed exn
  | WriteFailed exn bytes

subsection \<open>String operations of the Python library\<close>

definition TEMP_FILES_DIR :: path where
  "TEMP_FILES_DIR = ''/app/temp_files''"

text \<open>\<^verbatim>\<open>s.endswith(suf)\<close>\<close>

definition endswith :: "string \<Rightarrow> string \<Rightarrow> bool" where
  "endswith s suf = suffix suf s"

text \<open>\<^verbatim>\<open>x or d\<close> for an \<^verbatim>\<open>Optional[str]\<close>: \<^verbatim>\<open>None\<close> and the empty string are falsy.\<close>

fun str_or :: "string option \<Rightarrow> string \<Rightarrow> string" where
  "str_or None d = d"
| "str_or (Some s) d = (if s = [] then d else s)"

fun truthy :: "string option \<Rightarrow> bool" where
  "truthy None = False"
| "truthy (Some s) = (s \<noteq> [])"

text \<open>\<^verbatim>\<open>os.path.join(a, b)\<close> (posixpath) for two components.\<close>

definition os_path_join :: "path \<Rightarrow> path \<Rightarrow> path" where
  "os_path_join a b =
     (if prefix ''/'' b then b
      else if a = [] \<or> endswith a ''/'' then a @ b
      else a @ ''/'' @ b)"

text \<open>
  \<^verbatim>\<open>str.lower()\<close> on code points below 256: the ASCII capitals and the Latin-1 capitals
  (U+00C0 to U+00DE without the multiplication sign U+00D7) move up by 32.
\<close>

definition lower_char :: "char \<Rightarrow> char" where
  "lower_char c =
     (let n = (of_char c :: nat)
      in if (65 \<le> n \<and> n \<le> 90) \<or> (192 \<le> n \<and> n \<le> 222 \<and> n \<noteq> 215)
         then char_of (n + 32) else c)"

definition str_lower :: "string \<Rightarrow> string" where
  "str_lower s = map lower_char s"

text \<open>\<^verbatim>\<open>s.split(sep)\<close> for a separator of one character: never an empty list.\<close>

fun str_split :: "char \<Rightarrow> string \<Rightarrow> string list" where
  "str_split sep [] = [[]]"
| "str_split sep (c # cs) =
     (if c = sep then [] # str_split sep cs
      else (case str_split sep cs of
              [] \<Rightarrow> [[c]]
            | w # ws \<Rightarrow> (c # w) # ws))"

text \<open>
  \<^verbatim>\<open>str.isspace\<close> for one code point below 256, and \<^verbatim>\<open>str.strip()\<close>, which removes
  leading and trailing whitespace.
\<close>

definition is_space :: "char \<Rightarrow> bool" where
  "is_space c =
     (let n = (of_char c :: nat)
      in (9 \<le> n \<and> n \<le> 13) \<or> (28 \<le> n \<and> n \<le> 32) \<or> n = 133 \<or> n = 160)"

definition str_strip :: "string \<Rightarrow> string" where
  "str_strip s = rev (dropWhile is_space (rev (dropWhile is_space s)))"

text \<open>
  \<^verbatim>\<open>s.replace(old, new)\<close>: every occurrence of \<open>old\<close>, found from left to right without
  overlap, becomes \<open>new\<close>. For an empty \<open>old\<close>, \<open>new\<close> is put before every character and
  at the end.
\<close>

function str_replace :: "string \<Rightarrow> string \<Rightarrow> string \<Rightarrow> string" where
  "str_replace old new s =
     (if old = [] then new @ concat (map (\<lambda>c. c # new) s)
      else if s = [] then []
      else if prefix old s then new @ str_replace old new (drop (length old) s)
      else hd s # str_replace old new (tl s))"
  by pat_completeness auto
termination
  by (relation "measure (\<lambda>(old, new, s). length s)") auto

declare str_replace.simps [simp del]

text \<open>An uploaded file (\<^verbatim>\<open>UploadFile\<close>): its declared name, content type and bytes.\<close>

record UploadFile =
  uf_filename :: "string option"
  uf_content_type :: "string option"
  uf_content :: bytes

section \<open>The speech synthesizer (text-to-speech/main.py)\<close>

record TTSRequest =
  rq_job_id :: string
  rq_text :: string
  rq_voice_type :: string
  rq_filename :: "string option"
  rq_language :: string
  rq_download_path :: "string option"

record TTSResponse =
  r_job_id :: string
  r_filename :: string
  r_file_path :: string
  r_status :: string
  r_processed_at :: string
  r_download_url :: string

text \<open>A call to one of the two synthesis engines, as logged in the order made.\<close>

datatype tts_call = Gtts string string | Pyttsx3 string string

record tts_state =
  tts_files :: filesystem
  tts_calls :: "tts_call list"

text \<open>
  What lies outside the service: the two engines (each returns the audio bytes or
  raises), the clock, the file system's failures, and the framework's \<^verbatim>\<open>str()\<close> of an
  \<^verbatim>\<open>HTTPException\<close>.
\<close>

record tts_env =
  tts_http_str :: "nat \<Rightarrow> string \<Rightarrow> string"
  tts_now :: string
  gtts_engine :: "string \<Rightarrow> string \<Rightarrow> exn + bytes"
  pyttsx3_engine :: "string \<Rightarrow> string \<Rightarrow> exn + bytes"
  tts_open_write :: "path \<Rightarrow> bytes \<Rightarrow> write_outcome"
  home_downloads :: "exn + path"
  mkdir_parents :: "path \<Rightarrow> exn option"
  copy2 :: "path \<Rightarrow> path \<Rightarrow> exn option"

text \<open>\<^verbatim>\<open>get_default_download_path\<close>: the Downloads folder of the home directory.\<close>

definition get_default_download_path :: "tts_env \<Rightarrow> exn + path" where
  "get_default_download_path env = home_downloads env"

text \<open>\<^verbatim>\<open>copy_file_to_destination\<close>: any exception is logged and raised again.\<close>

definition copy_file_to_destination ::
  "tts_env \<Rightarrow> path \<Rightarrow> path \<Rightarrow> string \<Rightarrow> filesystem \<Rightarrow> (exn + path) \<times> filesystem" where
  "copy_file_to_destination env source_path destination_folder fname fs =
     (case mkdir_parents env destination_folder of
        Some e \<Rightarrow> (Inl e, fs)
      | None \<Rightarrow>
          (let destination_path = os_path_join destination_folder fname
           in case copy2 env source_path destination_path of
                Some e \<Rightarrow> (Inl e, fs)
              | None \<Rightarrow>
                  (case fs source_path of
                     None \<Rightarrow> (Inl (Exception ''FileNotFoundError''), fs)
                   | Some b \<Rightarrow> (Inr destination_path, fs(destination_path \<mapsto> b)))))"

text \<open>
  \<^verbatim>\<open>generate_gtts_speech\<close>, \<^verbatim>\<open>generate_pyttsx3_speech\<close> and \<^verbatim>\<open>run_tts_generation\<close>: each
  logs and raises again whatever the engine raised.
\<close>

definition generate_gtts_speech :: "tts_env \<Rightarrow> string \<Rightarrow> string \<Rightarrow> exn + bytes" where
  "generate_gtts_speech env txt lang = gtts_engine env txt lang"

definition generate_pyttsx3_speech :: "tts_env \<Rightarrow> string \<Rightarrow> string \<Rightarrow> exn + bytes" where
  "generate_pyttsx3_speech env txt voice = pyttsx3_engine env txt voice"

definition run_tts_generation ::
  "tts_env \<Rightarrow> string \<Rightarrow> string \<Rightarrow> string \<Rightarrow> bool \<Rightarrow> tts_state \<Rightarrow> (exn + bytes) \<times> tts_state" where
  "run_tts_generation env txt voice lang use_gtts st =
     (if use_gtts
      then (generate_gtts_speech env txt lang,
            st\<lparr>tts_calls := tts_calls st @ [Gtts txt lang]\<rparr>)
      else (generate_pyttsx3_speech env txt voice,
            st\<lparr>tts_calls := tts_calls st @ [Pyttsx3 txt voice]\<rparr>))"

text \<open>The three checks at the top of \<^verbatim>\<open>generate_speech\<close>, in the source's order.\<close>

definition validate_tts :: "TTSRequest \<Rightarrow> exn option" where
  "validate_tts request =
     (if rq_voice_type request \<notin> set [''male'', ''female'']
      then Some (HTTPException 400 (''Voice type must be 'male' or 'female'' @ [CHR 0x27]))
      else if length (rq_text request) > 5000
      then Some (HTTPException 400 ''Text is too long (max 5000 characters)'')
      else if str_strip (rq_text request) = []
      then Some (HTTPException 400 ''Text cannot be empty'')
      else None)"

text \<open>The name under which the audio is stored, before any engine has run.\<close>

definition tts_filename :: "TTSRequest \<Rightarrow> string" where
  "tts_filename request =
     (let fname = str_or (rq_filename request) (rq_job_id request @ ''.mp3'')
      in if \<not> endswith fname ''.mp3'' then fname @ ''.mp3'' else fname)"

text \<open>
  The inner \<^verbatim>\<open>try\<close> of \<^verbatim>\<open>generate_speech\<close>: the online engine, and on any exception the
  offline engine with the name's \<^verbatim>\<open>.mp3\<close> replaced by \<^verbatim>\<open>.wav\<close>. Returns the name and
  the audio.
\<close>

definition synthesize ::
  "tts_env \<Rightarrow> TTSRequest \<Rightarrow> string \<Rightarrow> tts_state \<Rightarrow> (exn + string \<times> bytes) \<times> tts_state" where
  "synthesize env request fname st =
     (case run_tts_generation env (rq_text request) (rq_voice_type request) (rq_language request) True st of
        (Inr audio_data, st1) \<Rightarrow> (Inr (fname, audio_data), st1)
      | (Inl e, st1) \<Rightarrow>
          (let fname' = str_replace ''.mp3'' ''.wav'' fname
           in case run_tts_generation env (rq_text request) (rq_voice_type request)
                     (rq_language request) False st1 of
                (Inr audio_data, st2) \<Rightarrow> (Inr (fname', audio_data), st2)
              | (Inl e', st2) \<Rightarrow> (Inl e', st2)))"

text \<open>The body of the outer \<^verbatim>\<open>try\<close> of \<^verbatim>\<open>generate_speech\<close>.\<close>

definition generate_speech_try ::
  "tts_env \<Rightarrow> TTSRequest \<Rightarrow> tts_state \<Rightarrow> (exn + TTSResponse) \<times> tts_state" where
  "generate_speech_try env request st =
     (case validate_tts request of
        Some e \<Rightarrow> (Inl e, st)
      | None \<Rightarrow>
          (case synthesize env request (tts_filename request) st of
             (Inl e, st1) \<Rightarrow> (Inl e, st1)
           | (Inr (fname, audio_data), st1) \<Rightarrow>
               (let temp_output_path = os_path_join TEMP_FILES_DIR fname
                in case tts_open_write env temp_output_path audio_data of
                     OpenFailed e \<Rightarrow> (Inl e, st1)
                   | WriteFailed e part \<Rightarrow>
                       (Inl e, st1\<lparr>tts_files := (tts_files st1)(temp_output_path \<mapsto> part)\<rparr>)
                   | Written \<Rightarrow>
                       (let fs1 = (tts_files st1)(temp_output_path \<mapsto> audio_data);
                            st2 = st1\<lparr>tts_files := fs1\<rparr>
                        in case (if truthy (rq_download_path request)
                                 then Inr (the (rq_download_path request))
                                 else get_default_download_path env) of
                             Inl e \<Rightarrow> (Inl e, st2)
                           | Inr download_folder \<Rightarrow>
                               (case copy_file_to_destination env temp_output_path
                                       download_folder fname fs1 of
                                  (Inl e, fs2) \<Rightarrow> (Inl e, st2\<lparr>tts_files := fs2\<rparr>)
                                | (Inr final_output_path, fs2) \<Rightarrow>
                                    (Inr \<lparr>r_job_id = rq_job_id request,
                                          r_filename = fname,
                                          r_file_path = final_output_path,
                                          r_status = ''completed'',
                                          r_processed_at = tts_now env,
                                          r_download_url =
                                            ''/download/'' @ rq_job_id request @ ''/'' @ fname\<rparr>,
                                     st2\<lparr>tts_files := fs2\<rparr>))))))"

text \<open>
  \<^verbatim>\<open>generate_speech\<close>: the outer \<^verbatim>\<open>except Exception as e\<close> turns every exception of the
  body, an \<^verbatim>\<open>HTTPException\<close> included, into an \<^verbatim>\<open>HTTPException\<close> with status 500.
\<close>

definition generate_speech ::
  "tts_env \<Rightarrow> TTSRequest \<Rightarrow> tts_state \<Rightarrow> (exn + TTSResponse) \<times> tts_state" where
  "generate_speech env request st =
     (case generate_speech_try env request st of
        (Inl e, st') \<Rightarrow>
          (Inl (HTTPException 500 (''Speech generation failed: '' @ exc_str (tts_http_str env) e)),
           st')
      | (Inr r, st') \<Rightarrow> (Inr r, st'))"

text \<open>
  \<^verbatim>\<open>download_file(job_id, filename)\<close> of the synthesizer; a served file is its path, the
  name it is offered under, its media type and its bytes.
\<close>

record FileResponse =
  fr_path :: path
  fr_filename :: string
  fr_media_type :: string
  fr_headers :: "(string \<times> string) list"
  fr_body :: bytes

definition tts_download_file_try :: "filesystem \<Rightarrow> string \<Rightarrow> string \<Rightarrow> exn + FileResponse" where
  "tts_download_file_try fs jid fname =
     (let file_path = os_path_join TEMP_FILES_DIR fname
      in case fs file_path of
           None \<Rightarrow> Inl (HTTPException 404 ''File not found'')
         | Some b \<Rightarrow>
             Inr \<lparr>fr_path = file_path,
                  fr_filename = fname,
                  fr_media_type = (if endswith fname ''.mp3'' then ''audio/mpeg'' else ''audio/wav''),
                  fr_headers = [(''Content-Disposition'', ''attachment; filename='' @ fname),
                                (''Cache-Control'', ''no-cache'')],
                  fr_body = b\<rparr>)"

definition tts_download_file ::
  "(nat \<Rightarrow> string \<Rightarrow> string) \<Rightarrow> filesystem \<Rightarrow> string \<Rightarrow> string \<Rightarrow> exn + FileResponse" where
  "tts_download_file h fs jid fname =
     (case tts_download_file_try fs jid fname of
        Inl e \<Rightarrow> Inl (HTTPException 500 (''Download failed: '' @ exc_str h e))
      | Inr r \<Rightarrow> Inr r)"

section \<open>The media processor (media-processor/main.py)\<close>

text \<open>The result of \<^verbatim>\<open>subprocess.run\<close>.\<close>

record CompletedProcess =
  returncode :: int
  stdout :: string
  stderr :: string

text \<open>
  What the processor asks of the outside, in the order asked: the probe of a file, the
  transcoder from an input to an output path, and the recognition model on a path (with
  the bytes stored there at that moment).
\<close>

datatype pm_call = Ffprobe path | Ffmpeg path path | Transcribe path "bytes option"

record pm_state =
  pm_files :: filesystem
  pm_calls :: "pm_call list"

record transcription =
  t_text :: string
  t_language :: string
  t_segments :: "string list"

text \<open>
  The outside of the processor. The transcoder gives the result of \<^verbatim>\<open>subprocess.run\<close>
  (or the exception it raised) and the bytes it left at its output path, if any.
\<close>

record pm_env =
  pm_http_str :: "nat \<Rightarrow> string \<Rightarrow> string"
  pm_now :: string
  pm_open_write :: "path \<Rightarrow> bytes \<Rightarrow> write_outcome"
  run_ffprobe :: "string list \<Rightarrow> filesystem \<Rightarrow> exn + CompletedProcess"
  json_loads :: "string \<Rightarrow> exn + string"
  run_ffmpeg :: "string list \<Rightarrow> filesystem \<Rightarrow> (exn + CompletedProcess) \<times> bytes option"
  whisper_transcribe :: "path \<Rightarrow> filesystem \<Rightarrow> exn + transcription"

text \<open>\<^verbatim>\<open>extract_audio_info\<close>: never raises; the empty dictionary on any failure.\<close>

definition extract_audio_info :: "pm_env \<Rightarrow> path \<Rightarrow> pm_state \<Rightarrow> string \<times> pm_state" where
  "extract_audio_info env file_path st =
     (let cmd = [''ffprobe'', ''-v'', ''quiet'', ''-print_format'', ''json'',
                 ''-show_format'', ''-show_streams'', file_path];
          st1 = st\<lparr>pm_calls := pm_calls st @ [Ffprobe file_path]\<rparr>
      in case run_ffprobe env cmd (pm_files st) of
           Inl e \<Rightarrow> (''{}'', st1)
         | Inr result \<Rightarrow>
             (if returncode result \<noteq> 0 then (''{}'', st1)
              else (case json_loads env (stdout result) of
                      Inl e \<Rightarrow> (''{}'', st1)
                    | Inr info \<Rightarrow> (info, st1))))"

text \<open>\<^verbatim>\<open>convert_to_audio\<close>: never raises; \<open>True\<close> exactly when the transcoder exits with 0.\<close>

definition convert_to_audio :: "pm_env \<Rightarrow> path \<Rightarrow> path \<Rightarrow> pm_state \<Rightarrow> bool \<times> pm_state" where
  "convert_to_audio env input_path output_path st =
     (let cmd = [''ffmpeg'', ''-i'', input_path, ''-vn'', ''-acodec'', ''mp3'', ''-ab'', ''192k'',
                 ''-ar'', ''44100'', ''-y'', output_path];
          (result, out) = run_ffmpeg env cmd (pm_files st);
          fs1 = (case out of None \<Rightarrow> pm_files st | Some b \<Rightarrow> (pm_files st)(output_path \<mapsto> b));
          st1 = st\<lparr>pm_files := fs1, pm_calls := pm_calls st @ [Ffmpeg input_path output_path]\<rparr>
      in case result of
           Inl e \<Rightarrow> (False, st1)
         | Inr r \<Rightarrow> (if returncode r \<noteq> 0 then (False, st1) else (True, st1)))"

text \<open>\<^verbatim>\<open>transcribe_audio\<close>: an exception of the model is logged and raised again.\<close>

definition transcribe_audio ::
  "pm_env \<Rightarrow> path \<Rightarrow> pm_state \<Rightarrow> (exn + transcription) \<times> pm_state" where
  "transcribe_audio env file_path st =
     (whisper_transcribe env file_path (pm_files st),
      st\<lparr>pm_calls := pm_calls st @ [Transcribe file_path (pm_files st file_path)]\<rparr>)"

record ProcessResult =
  p_job_id :: string
  p_filename :: string
  p_file_size :: nat
  p_file_info :: string
  p_transcription :: transcription
  p_status :: string
  p_processed_at :: string

definition VIDEO_EXTENSIONS :: "string list" where
  "VIDEO_EXTENSIONS = [''mp4'', ''avi'', ''mov'', ''mkv'', ''flv'', ''wmv'', ''webm'']"

text \<open>
  \<^verbatim>\<open>filename.lower().split('.')[-1] if '.' in filename else ''\<close>
\<close>

definition file_extension :: "string \<Rightarrow> string" where
  "file_extension fname =
     (if CHR ''.'' \<in> set fname then last (str_split CHR ''.'' (str_lower fname)) else [])"

text \<open>
  The extension in the specification's words: the part of the name after its last dot.
  It is compared with \<open>file_extension\<close> below.
\<close>

definition after_last_dot :: "string \<Rightarrow> string" where
  "after_last_dot s = rev (takeWhile (\<lambda>c. c \<noteq> CHR ''.'') (rev s))"

text \<open>The end of the \<^verbatim>\<open>try\<close> block of \<^verbatim>\<open>process_media\<close>: transcribe, build the result.\<close>

definition transcribe_and_report ::
  "pm_env \<Rightarrow> string \<Rightarrow> string \<Rightarrow> nat \<Rightarrow> string \<Rightarrow> path \<Rightarrow> pm_state
   \<Rightarrow> (exn + ProcessResult) \<times> pm_state" where
  "transcribe_and_report env jid fname file_size file_info audio_path st =
     (case transcribe_audio env audio_path st of
        (Inl e, st1) \<Rightarrow> (Inl e, st1)
      | (Inr tr, st1) \<Rightarrow>
          (Inr \<lparr>p_job_id = jid, p_filename = fname, p_file_size = file_size,
                p_file_info = file_info, p_transcription = tr, p_status = ''completed'',
                p_processed_at = pm_now env\<rparr>, st1))"

text \<open>
  The \<^verbatim>\<open>try\<close> block of \<^verbatim>\<open>process_media\<close>. Besides the outcome and the state it gives the
  two local variables \<^verbatim>\<open>temp_input_path\<close> and \<^verbatim>\<open>temp_audio_path\<close> (\<^verbatim>\<open>None\<close> until
  assigned), which the \<^verbatim>\<open>finally\<close> block reads.
\<close>

definition process_media_try ::
  "pm_env \<Rightarrow> UploadFile \<Rightarrow> string \<Rightarrow> string \<Rightarrow> pm_state
   \<Rightarrow> (exn + ProcessResult) \<times> pm_state \<times> path option \<times> path option" where
  "process_media_try env file jid fname st =
     (let content = uf_content file;
          file_size = length content
      in if file_size > 150 * 1024 * 1024
         then (Inl (HTTPException 413 ''File size exceeds 150MB limit''), st, None, None)
         else
           (let temp_input_path = os_path_join TEMP_FILES_DIR (jid @ ''_'' @ fname)
            in case pm_open_write env temp_input_path content of
                 OpenFailed e \<Rightarrow> (Inl e, st, Some temp_input_path, None)
               | WriteFailed e part \<Rightarrow>
                   (Inl e, st\<lparr>pm_files := (pm_files st)(temp_input_path \<mapsto> part)\<rparr>,
                    Some temp_input_path, None)
               | Written \<Rightarrow>
                   (let st1 = st\<lparr>pm_files := (pm_files st)(temp_input_path \<mapsto> content)\<rparr>;
                        (file_info, st2) = extract_audio_info env temp_input_path st1
                    in if file_extension fname \<in> set VIDEO_EXTENSIONS
                       then
                         (let temp_audio_path = os_path_join TEMP_FILES_DIR (jid @ ''_audio.mp3'');
                              (ok, st3) = convert_to_audio env temp_input_path temp_audio_path st2
                          in if \<not> ok
                             then (Inl (HTTPException 500 ''Failed to convert video to audio''),
                                   st3, Some temp_input_path, Some temp_audio_path)
                             else
                               (let (r, st4) = transcribe_and_report env jid fname file_size
                                                 file_info temp_audio_path st3
                                in (r, st4, Some temp_input_path, Some temp_audio_path)))
                       else
                         (let (r, st4) = transcribe_and_report env jid fname file_size
                                           file_info temp_input_path st2
                          in (r, st4, Some temp_input_path, None)))))"

text \<open>
  One statement of the \<^verbatim>\<open>finally\<close> block:
  \<^verbatim>\<open>if p and os.path.exists(p): os.remove(p)\<close>
\<close>

definition remove_if_exists :: "path option \<Rightarrow> filesystem \<Rightarrow> filesystem" where
  "remove_if_exists p fs =
     (if truthy p \<and> the p \<in> dom fs then fs(the p := None) else fs)"

text \<open>
  \<^verbatim>\<open>process_media\<close>: the \<^verbatim>\<open>except Exception\<close> clause turns every exception of the body
  into status 500; the \<^verbatim>\<open>finally\<close> block then removes both temporary files.
\<close>

definition process_media ::
  "pm_env \<Rightarrow> UploadFile \<Rightarrow> string \<Rightarrow> string \<Rightarrow> pm_state \<Rightarrow> (exn + ProcessResult) \<times> pm_state" where
  "process_media env file jid fname st =
     (let (r, st1, temp_input_path, temp_audio_path) = process_media_try env file jid fname st;
          r' = (case r of
                  Inl e \<Rightarrow> Inl (HTTPException 500
                                  (''Media processing failed: '' @ exc_str (pm_http_str env) e))
                | Inr v \<Rightarrow> Inr v);
          fs' = remove_if_exists temp_audio_path (remove_if_exists temp_input_path (pm_files st1))
      in (r', st1\<lparr>pm_files := fs'\<rparr>))"

section \<open>The gateway (api-gateway/main.py)\<close>

record MediaToTextResponse =
  m_id :: string
  m_filename :: string
  m_file_upload :: string
  m_status :: string
  m_created_at :: string

record TextToAudioRequest =
  ta_text :: string
  ta_voice_type :: string
  ta_filename :: "string option"

record TextToAudioResponse =
  a_id :: string
  a_filename :: string
  a_audio_url :: string
  a_voice_type :: string
  a_status :: string

text \<open>A downstream response: its status and what \<^verbatim>\<open>response.json()\<close> gives or raises.\<close>

record http_response =
  status_code :: nat
  json :: "exn + string"

text \<open>
  The downstream requests of the gateway, in the order sent: the multipart post to the
  processor (job id, file name, content type, bytes) and the JSON post to the
  synthesizer (job id, text, voice type, file name).
\<close>

datatype gw_call =
    PostProcessMedia string string "string option" bytes
  | PostGenerateSpeech string string string string

record gw_state =
  gw_files :: filesystem
  gw_calls :: "gw_call list"

record gw_env =
  gw_http_str :: "nat \<Rightarrow> string \<Rightarrow> string"
  gw_now :: string
  uuid4 :: string
  gw_open_write :: "path \<Rightarrow> bytes \<Rightarrow> write_outcome"
  post_process_media :: "string \<Rightarrow> string \<Rightarrow> bytes \<Rightarrow> exn + http_response"
  post_generate_speech :: "string \<Rightarrow> string \<Rightarrow> string \<Rightarrow> string \<Rightarrow> exn + http_response"
  random_draw :: "nat \<Rightarrow> nat"

text \<open>The \<^verbatim>\<open>try\<close> block of \<^verbatim>\<open>media_to_text\<close>.\<close>

definition media_to_text_try ::
  "gw_env \<Rightarrow> UploadFile \<Rightarrow> gw_state \<Rightarrow> (exn + MediaToTextResponse) \<times> gw_state" where
  "media_to_text_try env file st =
     (let jid = uuid4 env;
          content = uf_content file;
          file_size = length content
      in if file_size > 150 * 1024 * 1024
         then (Inl (HTTPException 413 ''File size exceeds 150MB limit''), st)
         else
           (let fname = str_or (uf_filename file) (''audio_'' @ take 8 jid @ ''.mp3'');
                temp_file_path = os_path_join TEMP_FILES_DIR (jid @ ''_'' @ fname)
            in case gw_open_write env temp_file_path content of
                 OpenFailed e \<Rightarrow> (Inl e, st)
               | WriteFailed e part \<Rightarrow>
                   (Inl e, st\<lparr>gw_files := (gw_files st)(temp_file_path \<mapsto> part)\<rparr>)
               | Written \<Rightarrow>
                   (let st1 = st\<lparr>gw_files := (gw_files st)(temp_file_path \<mapsto> content)\<rparr>
                    in case gw_files st1 temp_file_path of
                         None \<Rightarrow> (Inl (Exception ''FileNotFoundError''), st1)
                       | Some f \<Rightarrow>
                           (let st2 = st1\<lparr>gw_calls := gw_calls st1 @
                                        [PostProcessMedia jid fname (uf_content_type file) f]\<rparr>
                            in case post_process_media env jid fname f of
                                 Inl e \<Rightarrow> (Inl e, st2)
                               | Inr response \<Rightarrow>
                                   (let st3 = st2\<lparr>gw_files :=
                                                (if temp_file_path \<in> dom (gw_files st2)
                                                 then (gw_files st2)(temp_file_path := None)
                                                 else gw_files st2)\<rparr>
                                    in if status_code response \<noteq> 200
                                       then (Inl (HTTPException (status_code response)
                                                    ''Media processing failed''), st3)
                                       else (case json response of
                                               Inl e \<Rightarrow> (Inl e, st3)
                                             | Inr result \<Rightarrow>
                                                 (Inr \<lparr>m_id = jid, m_filename = fname,
                                                       m_file_upload = temp_file_path,
                                                       m_status = ''completed'',
                                                       m_created_at = gw_now env\<rparr>, st3)))))))"

text \<open>\<^verbatim>\<open>media_to_text\<close>: every exception of the body becomes status 500.\<close>

definition media_to_text ::
  "gw_env \<Rightarrow> UploadFile \<Rightarrow> gw_state \<Rightarrow> (exn + MediaToTextResponse) \<times> gw_state" where
  "media_to_text env file st =
     (case media_to_text_try env file st of
        (Inl e, st') \<Rightarrow>
          (Inl (HTTPException 500 (''Internal server error: '' @ exc_str (gw_http_str env) e)),
           st')
      | (Inr r, st') \<Rightarrow> (Inr r, st'))"

definition ascii_lowercase :: string where
  "ascii_lowercase = ''abcdefghijklmnopqrstuvwxyz''"

text \<open>
  \<^verbatim>\<open>random.choices(population, k=k)\<close>: \<open>k\<close> independent picks by index; the random source is
  a sequence of naturals, each reduced to an index. An empty population raises.
\<close>

definition random_choices :: "(nat \<Rightarrow> nat) \<Rightarrow> string \<Rightarrow> nat \<Rightarrow> exn + string" where
  "random_choices rnd population k =
     (if population = [] \<and> 0 < k then Inl (Exception ''IndexError'')
      else Inr (map (\<lambda>i. population ! (rnd i mod length population)) [0..<k]))"

text \<open>The file name chosen by \<^verbatim>\<open>text_to_audio\<close>.\<close>

definition text_to_audio_filename :: "gw_env \<Rightarrow> TextToAudioRequest \<Rightarrow> exn + string" where
  "text_to_audio_filename env request =
     (if \<not> truthy (ta_filename request)
      then (case random_choices (random_draw env) ascii_lowercase 10 of
              Inl e \<Rightarrow> Inl e
            | Inr random_name \<Rightarrow> Inr (random_name @ ''.mp3''))
      else (let f = the (ta_filename request)
            in Inr (if endswith f ''.mp3'' then f else f @ ''.mp3'')))"

text \<open>The \<^verbatim>\<open>try\<close> block of \<^verbatim>\<open>text_to_audio\<close>.\<close>

definition text_to_audio_try ::
  "gw_env \<Rightarrow> TextToAudioRequest \<Rightarrow> gw_state \<Rightarrow> (exn + TextToAudioResponse) \<times> gw_state" where
  "text_to_audio_try env request st =
     (let jid = uuid4 env
      in if ta_voice_type request \<notin> set [''male'', ''female'']
         then (Inl (HTTPException 400 (''Voice type must be 'male' or 'female'' @ [CHR 0x27])), st)
         else
           (case text_to_audio_filename env request of
              Inl e \<Rightarrow> (Inl e, st)
            | Inr fname \<Rightarrow>
                (let st1 = st\<lparr>gw_calls := gw_calls st @
                             [PostGenerateSpeech jid (ta_text request)
                                (ta_voice_type request) fname]\<rparr>
                 in case post_generate_speech env jid (ta_text request)
                           (ta_voice_type request) fname of
                      Inl e \<Rightarrow> (Inl e, st1)
                    | Inr response \<Rightarrow>
                        (if status_code response \<noteq> 200
                         then (Inl (HTTPException (status_code response)
                                      ''Text-to-speech generation failed''), st1)
                         else (case json response of
                                 Inl e \<Rightarrow> (Inl e, st1)
                               | Inr result \<Rightarrow>
                                   (Inr \<lparr>a_id = jid, a_filename = fname,
                                         a_audio_url = ''/api/v1/download/'' @ jid,
                                         a_voice_type = ta_voice_type request,
                                         a_status = ''completed''\<rparr>, st1))))))"

text \<open>\<^verbatim>\<open>text_to_audio\<close>: every exception of the body becomes status 500.\<close>

definition text_to_audio ::
  "gw_env \<Rightarrow> TextToAudioRequest \<Rightarrow> gw_state \<Rightarrow> (exn + TextToAudioResponse) \<times> gw_state" where
  "text_to_audio env request st =
     (case text_to_audio_try env request st of
        (Inl e, st') \<Rightarrow>
          (Inl (HTTPException 500 (''Internal server error: '' @ exc_str (gw_http_str env) e)),
           st')
      | (Inr r, st') \<Rightarrow> (Inr r, st'))"

section \<open>Example runs\<close>

text \<open>
  A synthesizer whose online engine is unreachable and whose offline engine works, and a
  request whose file name has \<^verbatim>\<open>.mp3\<close> in its middle as well as at its end.
\<close>

definition offline_env :: tts_env where
  "offline_env =
     \<lparr>tts_http_str = (\<lambda>c d. d),
      tts_now = ''2024-01-01T00:00:00'',
      gtts_engine = (\<lambda>t l. Inl (Exception ''gTTSError'')),
      pyttsx3_engine = (\<lambda>t v. Inr [82, 73, 70, 70]),
      tts_open_write = (\<lambda>p b. Written),
      home_downloads = Inr ''/root/Downloads'',
      mkdir_parents = (\<lambda>p. None),
      copy2 = (\<lambda>a b. None)\<rparr>"

definition interior_mp3_request :: TTSRequest where
  "interior_mp3_request =
     \<lparr>rq_job_id = ''j1'', rq_text = ''Hello world'', rq_voice_type = ''male'',
      rq_filename = Some ''my.mp3.song.mp3'', rq_language = ''en'', rq_download_path = None\<rparr>"

definition empty_tts_state :: tts_state where
  "empty_tts_state = \<lparr>tts_files = Map.empty, tts_calls = []\<rparr>"

text \<open>
  A processor whose tools all succeed, one whose recognition model raises, and two
  uploads: a video (with a capitalised extension) and an audio file.
\<close>

definition working_pm_env :: pm_env where
  "working_pm_env =
     \<lparr>pm_http_str = (\<lambda>c d. d),
      pm_now = ''2024-01-01T00:00:00'',
      pm_open_write = (\<lambda>p b. Written),
      run_ffprobe = (\<lambda>cmd fs. Inr \<lparr>returncode = 0, stdout = ''{}'', stderr = []\<rparr>),
      json_loads = (\<lambda>s. Inr s),
      run_ffmpeg = (\<lambda>cmd fs. (Inr \<lparr>returncode = 0, stdout = [], stderr = []\<rparr>, Some [73, 68, 51])),
      whisper_transcribe =
        (\<lambda>p fs. Inr \<lparr>t_text = ''hello'', t_language = ''en'', t_segments = []\<rparr>)\<rparr>"

definition failing_model_env :: pm_env where
  "failing_model_env =
     working_pm_env\<lparr>whisper_transcribe := (\<lambda>p fs. Inl (Exception ''RuntimeError''))\<rparr>"

definition clip_upload :: UploadFile where
  "clip_upload =
     \<lparr>uf_filename = Some ''clip.MP4'', uf_content_type = Some ''video/mp4'',
      uf_content = [0, 1, 2]\<rparr>"

definition song_upload :: UploadFile where
  "song_upload =
     \<lparr>uf_filename = Some ''song.mp3'', uf_content_type = Some ''audio/mpeg'',
      uf_content = [7, 8, 9]\<rparr>"

definition empty_pm_state :: pm_state where
  "empty_pm_state = \<lparr>pm_files = Map.empty, pm_calls = []\<rparr>"

text \<open>
  A gateway whose downstream services answer with status 200, one whose call to the
  processor times out, and three text requests: an unknown voice, no file name, and a
  file name that carries another extension.
\<close>

definition working_gw_env :: gw_env where
  "working_gw_env =
     \<lparr>gw_http_str = (\<lambda>c d. d),
      gw_now = ''2024-01-01T00:00:00'',
      uuid4 = ''0b5f3c2e-job'',
      gw_open_write = (\<lambda>p b. Written),
      post_process_media = (\<lambda>j f b. Inr \<lparr>status_code = 200, json = Inr ''{}''\<rparr>),
      post_generate_speech = (\<lambda>j t v f. Inr \<lparr>status_code = 200, json = Inr ''{}''\<rparr>),
      random_draw = (\<lambda>i. 7 * i + 3)\<rparr>"

definition timeout_gw_env :: gw_env where
  "timeout_gw_env =
     working_gw_env\<lparr>post_process_media := (\<lambda>j f b. Inl (Exception ''ReadTimeout''))\<rparr>"

definition empty_gw_state :: gw_state where
  "empty_gw_state = \<lparr>gw_files = Map.empty, gw_calls = []\<rparr>"

definition robot_request :: TextToAudioRequest where
  "robot_request = \<lparr>ta_text = ''Hello world'', ta_voice_type = ''robot'', ta_filename = None\<rparr>"

definition unnamed_request :: TextToAudioRequest where
  "unnamed_request = \<lparr>ta_text = ''Hello world'', ta_voice_type = ''male'', ta_filename = None\<rparr>"

definition wav_request :: TextToAudioRequest where
  "wav_request =
     \<lparr>ta_text = ''Hello world'', ta_voice_type = ''female'', ta_filename = Some ''speech.wav''\<rparr>"

text \<open>
  An upload one byte over the size limit, an upload of exactly the limit, and three
  synthesis requests that fail validation: an unknown voice, a blank text and a text of
  5001 characters.
\<close>

definition oversize_upload :: UploadFile where
  "oversize_upload =
     \<lparr>uf_filename = Some ''big.mp4'', uf_content_type = Some ''video/mp4'',
      uf_content = replicate (150 * 1024 * 1024 + 1) 0\<rparr>"

definition limit_upload :: UploadFile where
  "limit_upload =
     \<lparr>uf_filename = Some ''song.mp3'', uf_content_type = Some ''audio/mpeg'',
      uf_content = replicate (150 * 1024 * 1024) 0\<rparr>"

definition robot_tts_request :: TTSRequest where
  "robot_tts_request =
     \<lparr>rq_job_id = ''j1'', rq_text = ''Hello world'', rq_voice_type = ''robot'',
      rq_filename = None, rq_language = ''en'', rq_download_path = None\<rparr>"

definition blank_tts_request :: TTSRequest where
  "blank_tts_request =
     \<lparr>rq_job_id = ''j1'', rq_text = ''   '', rq_voice_type = ''male'',
      rq_filename = None, rq_language = ''en'', rq_download_path = None\<rparr>"

definition long_tts_request :: TTSRequest where
  "long_tts_request =
     \<lparr>rq_job_id = ''j1'', rq_text = replicate 5001 CHR ''a'', rq_voice_type = ''male'',
      rq_filename = None, rq_language = ''en'', rq_download_path = None\<rparr>"

section \<open>Facts about the string operations\<close>

lemma str_replace_Nil: "old \<noteq> [] \<Longrightarrow> str_replace old new [] = []"
  by (subst str_replace.simps) simp

lemma str_replace_hit:
  "old \<noteq> [] \<Longrightarrow> str_replace old new (old @ rest) = new @ str_replace old new rest"
  by (subst str_replace.simps) simp

lemma str_replace_miss:
  "old \<noteq> [] \<Longrightarrow> \<not> prefix old (c # cs) \<Longrightarrow>
   str_replace old new (c # cs) = c # str_replace old new cs"
  by (subst str_replace.simps) simp

lemma dropWhile_all_space:
  assumes "\<forall>c \<in> set (dropWhile is_space s). is_space c"
  shows "dropWhile is_space s = []"
proof (rule ccontr)
  assume ne: "dropWhile is_space s \<noteq> []"
  then have "\<not> is_space (hd (dropWhile is_space s))" by (rule hd_dropWhile)
  moreover have "hd (dropWhile is_space s) \<in> set (dropWhile is_space s)"
    using ne by simp
  ultimately show False using assms by blast
qed

lemma str_strip_empty_iff: "str_strip s = [] \<longleftrightarrow> (\<forall>c \<in> set s. is_space c)"
proof
  assume "str_strip s = []"
  then have "\<forall>c \<in> set (dropWhile is_space s). is_space c"
    by (simp add: str_strip_def)
  then have "dropWhile is_space s = []" by (rule dropWhile_all_space)
  then show "\<forall>c \<in> set s. is_space c" by simp
next
  assume "\<forall>c \<in> set s. is_space c"
  then have d: "dropWhile is_space s = []" by simp
  show "str_strip s = []" unfolding str_strip_def d by simp
qed

lemma mp3_no_overlap:
  assumes "suffix ''.mp3'' (''.mp3'' @ rest)"
  shows "rest = [] \<or> suffix ''.mp3'' rest"
  using assms
  by (auto simp: suffix_append append_eq_Cons_conv Cons_eq_append_conv suffix_Cons)

lemma replace_mp3_wav_suffix:
  "suffix ''.mp3'' s \<Longrightarrow> suffix ''.wav'' (str_replace ''.mp3'' ''.wav'' s)"
proof (induction s rule: length_induct)
  case (1 s)
  show ?case
  proof (cases "prefix ''.mp3'' s")
    case True
    then obtain rest where s: "s = ''.mp3'' @ rest" by (auto simp: prefix_def)
    with 1(2) have "rest = [] \<or> suffix ''.mp3'' rest" using mp3_no_overlap by blast
    then show ?thesis
    proof
      assume "rest = []"
      then have "str_replace ''.mp3'' ''.wav'' s = ''.wav''"
        using s str_replace_hit [of "''.mp3''" "''.wav''" "[]"] by (simp add: str_replace_Nil)
      then show ?thesis by simp
    next
      assume r: "suffix ''.mp3'' rest"
      have "length rest < length s" using s by simp
      with 1(1) r have "suffix ''.wav'' (str_replace ''.mp3'' ''.wav'' rest)" by blast
      moreover have "str_replace ''.mp3'' ''.wav'' s = ''.wav'' @ str_replace ''.mp3'' ''.wav'' rest"
        unfolding s by (rule str_replace_hit) simp
      ultimately show ?thesis by (simp only: suffix_appendI)
    qed
  next
    case False
    from 1(2) have ne: "s \<noteq> []" by auto
    then obtain c cs where s: "s = c # cs" by (cases s) auto
    from 1(2) False s have r: "suffix ''.mp3'' cs" by (auto simp: suffix_Cons)
    have "length cs < length s" using s by simp
    with 1(1) r have "suffix ''.wav'' (str_replace ''.mp3'' ''.wav'' cs)" by blast
    moreover have "str_replace ''.mp3'' ''.wav'' s = c # str_replace ''.mp3'' ''.wav'' cs"
      unfolding s using False s by (intro str_replace_miss) auto
    ultimately show ?thesis by (simp only: suffix_ConsI)
  qed
qed

lemma wav_not_mp3: "suffix ''.wav'' s \<Longrightarrow> \<not> suffix ''.mp3'' s"
  by (auto simp: suffix_def)

lemma length_str_split: "length (str_split sep s) = Suc (length (filter (\<lambda>c. c = sep) s))"
  by (induction s) (auto split: list.splits)

lemma str_split_nonempty: "str_split sep s \<noteq> []"
  using length_str_split [of sep s] by auto

lemma str_split_single: "str_split sep s = [w] \<Longrightarrow> sep \<notin> set s \<and> w = s"
proof (induction s arbitrary: w)
  case Nil
  then show ?case by simp
next
  case (Cons c cs)
  show ?case
  proof (cases "c = sep")
    case True
    with Cons.prems show ?thesis by (simp add: str_split_nonempty)
  next
    case False
    with Cons.prems obtain w' where "str_split sep cs = [w']" "w = c # w'"
      using str_split_nonempty [of sep cs] by (auto split: list.splits)
    with Cons.IH [of w'] False show ?thesis by auto
  qed
qed

lemma str_split_no_sep: "sep \<notin> set s \<Longrightarrow> str_split sep s = [s]"
  by (induction s) auto

lemma last_str_split:
  "last (str_split sep s) = rev (takeWhile (\<lambda>c. c \<noteq> sep) (rev s))"
proof (induction s)
  case Nil
  then show ?case by simp
next
  case (Cons c cs)
  show ?case
  proof (cases "c = sep")
    case True
    then show ?thesis
      using Cons.IH by (simp add: str_split_nonempty takeWhile_append)
  next
    case False
    show ?thesis
    proof (cases "sep \<in> set cs")
      case True
      obtain w ws where ws: "str_split sep cs = w # ws"
        using str_split_nonempty [of sep cs] by (cases "str_split sep cs") auto
      have "ws \<noteq> []" using ws True str_split_single [of sep cs w] by auto
      then show ?thesis using Cons.IH ws True False by (auto simp: takeWhile_append)
    next
      case nosep: False
      then show ?thesis using False by (simp add: str_split_no_sep takeWhile_append)
    qed
  qed
qed

lemma shifted_not_dot:
  fixes n :: nat
  assumes "(65 \<le> n \<and> n \<le> 90) \<or> (192 \<le> n \<and> n \<le> 222 \<and> n \<noteq> 215)"
  shows "(n + 32) mod 256 \<noteq> 46"
proof -
  from assms have "n + 32 < 256" by auto
  then have "(n + 32) mod 256 = n + 32" by simp
  with assms show ?thesis by auto
qed

lemma lower_char_dot: "lower_char c = CHR ''.'' \<longleftrightarrow> c = CHR ''.''"
proof
  assume "c = CHR ''.''"
  then show "lower_char c = CHR ''.''" by (simp add: lower_char_def)
next
  assume a: "lower_char c = CHR ''.''"
  show "c = CHR ''.''"
  proof (cases "(65 \<le> (of_char c :: nat) \<and> (of_char c :: nat) \<le> 90) \<or>
                (192 \<le> (of_char c :: nat) \<and> (of_char c :: nat) \<le> 222 \<and> (of_char c :: nat) \<noteq> 215)")
    case True
    then have "lower_char c = char_of (of_char c + 32 :: nat)"
      unfolding lower_char_def Let_def by (rule if_P)
    with a have "char_of (of_char c + 32 :: nat) = CHR ''.''" by simp
    then have "of_char (char_of (of_char c + 32 :: nat) :: char) = (46::nat)" by simp
    then have "(of_char c + 32 :: nat) mod 256 = 46" by simp
    with shifted_not_dot [OF True] show ?thesis by simp
  next
    case False
    then have "lower_char c = c" unfolding lower_char_def Let_def by (rule if_not_P)
    with a show ?thesis by simp
  qed
qed

lemma file_extension_after_last_dot:
  "file_extension fname =
     (if CHR ''.'' \<in> set fname then str_lower (after_last_dot fname) else [])"
proof -
  have "takeWhile (\<lambda>c. c \<noteq> CHR ''.'') (map lower_char xs) =
        map lower_char (takeWhile (\<lambda>c. c \<noteq> CHR ''.'') xs)" for xs
    by (induction xs) (auto simp: lower_char_dot)
  then show ?thesis
    by (simp add: file_extension_def after_last_dot_def str_lower_def last_str_split
        rev_map)
qed

section \<open>The synthesizer's validation order\<close>

text \<open>
  Claim C10. In \<^verbatim>\<open>generate_speech\<close>, for a request with a recognised voice type: a text of
  more than 5000 characters is rejected as too long, whatever it consists of (so a text of
  5001 blanks is rejected as too long, not as empty); a text of at most 5000 characters
  that consists only of whitespace is rejected as empty; and the empty-text rejection is
  raised exactly when the length check has passed and the stripped text is the empty
  string. The state is left as it was, and the handler reports the rejection it caught.
\<close>

theorem whitespace_text_rejected_after_length_check:
  assumes "rq_voice_type request = ''male'' \<or> rq_voice_type request = ''female''"
  shows "(5000 < length (rq_text request) \<longrightarrow>
            generate_speech_try env request st =
              (Inl (HTTPException 400 ''Text is too long (max 5000 characters)''), st) \<and>
            generate_speech env request st =
              (Inl (HTTPException 500 (''Speech generation failed: '' @
                 tts_http_str env 400 ''Text is too long (max 5000 characters)'')), st)) \<and>
         (length (rq_text request) \<le> 5000 \<and> (\<forall>c \<in> set (rq_text request). is_space c) \<longrightarrow>
            generate_speech_try env request st =
              (Inl (HTTPException 400 ''Text cannot be empty''), st) \<and>
            generate_speech env request st =
              (Inl (HTTPException 500 (''Speech generation failed: '' @
                 tts_http_str env 400 ''Text cannot be empty'')), st)) \<and>
         (validate_tts request = Some (HTTPException 400 ''Text cannot be empty'') \<longleftrightarrow>
            length (rq_text request) \<le> 5000 \<and> str_strip (rq_text request) = [])"
  using assms
  by (auto simp: generate_speech_def generate_speech_try_def validate_tts_def str_strip_empty_iff)

theorem whitespace_text_rejected_after_length_check_witness:
  "\<forall>env st.
     generate_speech_try env
       \<lparr>rq_job_id = ''j1'', rq_text = replicate 5001 CHR '' '', rq_voice_type = ''male'',
        rq_filename = None, rq_language = ''en'', rq_download_path = None\<rparr> st =
       (Inl (HTTPException 400 ''Text is too long (max 5000 characters)''), st) \<and>
     generate_speech_try env
       \<lparr>rq_job_id = ''j1'', rq_text = replicate 3 CHR '' '', rq_voice_type = ''male'',
        rq_filename = None, rq_language = ''en'', rq_download_path = None\<rparr> st =
       (Inl (HTTPException 400 ''Text cannot be empty''), st)"
proof (intro allI conjI)
  fix env st
  let ?long = "\<lparr>rq_job_id = ''j1'', rq_text = replicate 5001 CHR '' '', rq_voice_type = ''male'',
        rq_filename = None, rq_language = ''en'', rq_download_path = None\<rparr>"
  let ?short = "\<lparr>rq_job_id = ''j1'', rq_text = replicate 3 CHR '' '', rq_voice_type = ''male'',
        rq_filename = None, rq_language = ''en'', rq_download_path = None\<rparr>"
  show "generate_speech_try env ?long st =
       (Inl (HTTPException 400 ''Text is too long (max 5000 characters)''), st)"
    using whitespace_text_rejected_after_length_check [of ?long env st] by simp
  show "generate_speech_try env ?short st = (Inl (HTTPException 400 ''Text cannot be empty''), st)"
    using whitespace_text_rejected_after_length_check [of ?short env st]
    by (simp add: is_space_def)
qed

section \<open>The synthesizer's download endpoint\<close>

text \<open>
  Claim C9. \<^verbatim>\<open>download_file(job_id, filename)\<close> of the synthesizer gives the same outcome
  for any two job ids: the path looked up is the file name joined to the temp directory,
  the bytes served are the bytes stored there, and the lookup fails exactly when nothing
  is stored there.
\<close>

theorem download_ignores_job_id:
  "tts_download_file h fs jid1 fname = tts_download_file h fs jid2 fname \<and>
   tts_download_file h fs jid1 fname =
     (case fs (os_path_join TEMP_FILES_DIR fname) of
        None \<Rightarrow> Inl (HTTPException 500 (''Download failed: '' @ h 404 ''File not found''))
      | Some b \<Rightarrow> Inr \<lparr>fr_path = os_path_join TEMP_FILES_DIR fname, fr_filename = fname,
                        fr_media_type = (if endswith fname ''.mp3'' then ''audio/mpeg'' else ''audio/wav''),
                        fr_headers = [(''Content-Disposition'', ''attachment; filename='' @ fname),
                                      (''Cache-Control'', ''no-cache'')],
                        fr_body = b\<rparr>)"
  by (simp add: tts_download_file_def tts_download_file_try_def split: option.splits)

theorem download_ignores_job_id_witness:
  "tts_download_file (\<lambda>c d. d) [''/app/temp_files/a.mp3'' \<mapsto> [1, 2, 3]] ''job-1'' ''a.mp3'' =
   tts_download_file (\<lambda>c d. d) [''/app/temp_files/a.mp3'' \<mapsto> [1, 2, 3]] ''job-2'' ''a.mp3''"
  using download_ignores_job_id
    [of "\<lambda>c d. d" "[''/app/temp_files/a.mp3'' \<mapsto> [1, 2, 3]]" "''job-1''" "''a.mp3''" "''job-2''"]
  by simp

section \<open>The synthesizer's fallback engine\<close>

lemma tts_filename_mp3: "endswith (tts_filename request) ''.mp3''"
  by (auto simp: tts_filename_def Let_def endswith_def intro: suffixI)

lemma fallback_filename:
  "endswith (str_replace ''.mp3'' ''.wav'' (tts_filename request)) ''.wav'' \<and>
   \<not> endswith (str_replace ''.mp3'' ''.wav'' (tts_filename request)) ''.mp3''"
  using tts_filename_mp3 [of request] replace_mp3_wav_suffix wav_not_mp3
  unfolding endswith_def by blast

lemma synthesize_fallback:
  assumes "gtts_engine env (rq_text request) (rq_language request) = Inl e"
  shows "synthesize env request fname st =
     ((case pyttsx3_engine env (rq_text request) (rq_voice_type request) of
         Inl e' \<Rightarrow> Inl e'
       | Inr audio_data \<Rightarrow> Inr (str_replace ''.mp3'' ''.wav'' fname, audio_data)),
      st\<lparr>tts_calls := tts_calls st @ [Gtts (rq_text request) (rq_language request),
                                       Pyttsx3 (rq_text request) (rq_voice_type request)]\<rparr>)"
  using assms
  by (simp add: synthesize_def run_tts_generation_def generate_gtts_speech_def
      generate_pyttsx3_speech_def split: sum.splits)

lemma copy_file_calls:
  "tts_calls (snd (generate_speech_try env request st)) =
     (case validate_tts request of
        Some e \<Rightarrow> tts_calls st
      | None \<Rightarrow> tts_calls (snd (synthesize env request (tts_filename request) st)))"
  by (simp add: generate_speech_try_def copy_file_to_destination_def Let_def
      split: option.splits sum.splits prod.splits write_outcome.splits)

lemma generate_speech_calls:
  "tts_calls (snd (generate_speech env request st)) =
   tts_calls (snd (generate_speech_try env request st))"
  by (simp add: generate_speech_def split: prod.splits sum.splits)

lemma generate_speech_try_filename:
  assumes "generate_speech_try env request st = (Inr r, st')"
  shows "\<exists>audio_data st1. synthesize env request (tts_filename request) st =
           (Inr (r_filename r, audio_data), st1)"
  using assms
  by (auto simp: generate_speech_try_def copy_file_to_destination_def Let_def
      split: option.splits sum.splits prod.splits write_outcome.splits if_splits)

lemma generate_speech_try_engine_failure:
  assumes "validate_tts request = None"
    and "synthesize env request (tts_filename request) st = (Inl e, st1)"
  shows "generate_speech_try env request st = (Inl e, st1)"
  using assms by (simp add: generate_speech_try_def)

text \<open>
  Claim C6. For a request that passes validation and whose online engine call raises
  (any exception), \<^verbatim>\<open>generate_speech\<close> calls the offline engine exactly once, after the
  online one; if it answers with a response, the response's file name is the stored name
  with every \<^verbatim>\<open>.mp3\<close> replaced by \<^verbatim>\<open>.wav\<close>, which ends in \<^verbatim>\<open>.wav\<close> and not in
  \<^verbatim>\<open>.mp3\<close> for every file name of the request; if the offline engine raises too, the
  handler reports that failure.
\<close>

theorem fallback_once_and_wav:
  assumes valid: "validate_tts request = None"
    and primary: "gtts_engine env (rq_text request) (rq_language request) = Inl e"
  shows "tts_calls (snd (generate_speech env request st)) =
           tts_calls st @ [Gtts (rq_text request) (rq_language request),
                           Pyttsx3 (rq_text request) (rq_voice_type request)] \<and>
         (case fst (generate_speech env request st) of
            Inl x \<Rightarrow> True
          | Inr r \<Rightarrow>
              r_filename r = str_replace ''.mp3'' ''.wav'' (tts_filename request) \<and>
              endswith (r_filename r) ''.wav'' \<and> \<not> endswith (r_filename r) ''.mp3'') \<and>
         (case pyttsx3_engine env (rq_text request) (rq_voice_type request) of
            Inl e' \<Rightarrow>
              fst (generate_speech env request st) =
                Inl (HTTPException 500
                       (''Speech generation failed: '' @ exc_str (tts_http_str env) e'))
          | Inr audio_data \<Rightarrow> True)"
proof (intro conjI)
  show "tts_calls (snd (generate_speech env request st)) =
           tts_calls st @ [Gtts (rq_text request) (rq_language request),
                           Pyttsx3 (rq_text request) (rq_voice_type request)]"
    by (simp add: generate_speech_calls copy_file_calls valid synthesize_fallback [OF primary])
next
  show "case fst (generate_speech env request st) of
          Inl x \<Rightarrow> True
        | Inr r \<Rightarrow>
            r_filename r = str_replace ''.mp3'' ''.wav'' (tts_filename request) \<and>
            endswith (r_filename r) ''.wav'' \<and> \<not> endswith (r_filename r) ''.mp3''"
  proof (cases "fst (generate_speech env request st)")
    case (Inl x)
    then show ?thesis by simp
  next
    case (Inr r)
    then obtain st' where "generate_speech_try env request st = (Inr r, st')"
      by (auto simp: generate_speech_def split: prod.splits sum.splits)
    from generate_speech_try_filename [OF this]
    have "r_filename r = str_replace ''.mp3'' ''.wav'' (tts_filename request)"
      by (auto simp: synthesize_fallback [OF primary] split: sum.splits)
    then show ?thesis using Inr fallback_filename [of request] by simp
  qed
next
  show "case pyttsx3_engine env (rq_text request) (rq_voice_type request) of
          Inl e' \<Rightarrow>
            fst (generate_speech env request st) =
              Inl (HTTPException 500
                     (''Speech generation failed: '' @ exc_str (tts_http_str env) e'))
        | Inr audio_data \<Rightarrow> True"
  proof (cases "pyttsx3_engine env (rq_text request) (rq_voice_type request)")
    case (Inl e')
    have "generate_speech_try env request st =
            (Inl e', st\<lparr>tts_calls := tts_calls st @ [Gtts (rq_text request) (rq_language request),
                                       Pyttsx3 (rq_text request) (rq_voice_type request)]\<rparr>)"
      by (rule generate_speech_try_engine_failure [OF valid])
         (simp add: synthesize_fallback [OF primary] Inl)
    then show ?thesis using Inl by (simp add: generate_speech_def)
  next
    case (Inr a)
    then show ?thesis by simp
  qed
qed

lemma offline_run:
  "fst (generate_speech offline_env interior_mp3_request empty_tts_state) =
     Inr \<lparr>r_job_id = ''j1'', r_filename = ''my.wav.song.wav'',
           r_file_path = ''/root/Downloads/my.wav.song.wav'', r_status = ''completed'',
           r_processed_at = ''2024-01-01T00:00:00'',
           r_download_url = ''/download/j1/my.wav.song.wav''\<rparr>"
  by (simp add: generate_speech_def generate_speech_try_def validate_tts_def synthesize_def
      run_tts_generation_def generate_gtts_speech_def generate_pyttsx3_speech_def
      offline_env_def interior_mp3_request_def empty_tts_state_def tts_filename_def
      str_strip_def is_space_def endswith_def os_path_join_def TEMP_FILES_DIR_def
      get_default_download_path_def copy_file_to_destination_def str_replace.simps Let_def
      suffix_to_prefix)

theorem fallback_once_and_wav_witness:
  "validate_tts interior_mp3_request = None \<and>
   gtts_engine offline_env ''Hello world'' ''en'' = Inl (Exception ''gTTSError'') \<and>
   tts_calls (snd (generate_speech offline_env interior_mp3_request empty_tts_state)) =
     [Gtts ''Hello world'' ''en'', Pyttsx3 ''Hello world'' ''male''] \<and>
   map_sum id r_filename (fst (generate_speech offline_env interior_mp3_request empty_tts_state)) =
     Inr ''my.wav.song.wav'' \<and>
   endswith ''my.wav.song.wav'' ''.wav''"
proof -
  have v: "validate_tts interior_mp3_request = None"
    by (simp add: validate_tts_def interior_mp3_request_def str_strip_def is_space_def)
  have fields: "rq_text interior_mp3_request = ''Hello world''"
    "rq_language interior_mp3_request = ''en''" "rq_voice_type interior_mp3_request = ''male''"
    by (simp_all add: interior_mp3_request_def)
  have g: "gtts_engine offline_env (rq_text interior_mp3_request) (rq_language interior_mp3_request)
             = Inl (Exception ''gTTSError'')"
    by (simp add: offline_env_def)
  have s0: "tts_calls empty_tts_state = []"
    by (simp add: empty_tts_state_def)
  have w: "endswith ''my.wav.song.wav'' ''.wav''"
    by (simp add: endswith_def suffix_to_prefix)
  show ?thesis
    using v g w fallback_once_and_wav [OF v g, of empty_tts_state]
    by (simp add: offline_run fields s0)
qed


section \<open>The media processor step by step\<close>

lemma os_path_join_nonempty: "b \<noteq> [] \<Longrightarrow> os_path_join TEMP_FILES_DIR b \<noteq> []"
  by (simp add: os_path_join_def TEMP_FILES_DIR_def)

lemma remove_if_exists_None: "remove_if_exists None fs = fs"
  by (simp add: remove_if_exists_def)

lemma remove_if_exists_Some: "p \<noteq> [] \<Longrightarrow> remove_if_exists (Some p) fs = fs(p := None)"
  by (auto simp: remove_if_exists_def fun_eq_iff domIff)

lemma extract_audio_info_state:
  "snd (extract_audio_info env p st) = st\<lparr>pm_calls := pm_calls st @ [Ffprobe p]\<rparr>"
  by (simp add: extract_audio_info_def Let_def split: sum.splits)

lemma convert_to_audio_state:
  "snd (convert_to_audio env i outp st) =
     st\<lparr>pm_files := (case snd (run_ffmpeg env
                          [''ffmpeg'', ''-i'', i, ''-vn'', ''-acodec'', ''mp3'', ''-ab'', ''192k'',
                           ''-ar'', ''44100'', ''-y'', outp] (pm_files st)) of
                        None \<Rightarrow> pm_files st | Some b \<Rightarrow> (pm_files st)(outp \<mapsto> b)),
         pm_calls := pm_calls st @ [Ffmpeg i outp]\<rparr>"
  by (simp add: convert_to_audio_def Let_def split: sum.splits prod.splits)

lemma convert_to_audio_ok:
  "fst (convert_to_audio env i outp st) =
     (case fst (run_ffmpeg env
                  [''ffmpeg'', ''-i'', i, ''-vn'', ''-acodec'', ''mp3'', ''-ab'', ''192k'',
                   ''-ar'', ''44100'', ''-y'', outp] (pm_files st)) of
        Inl e \<Rightarrow> False | Inr r \<Rightarrow> returncode r = 0)"
  by (simp add: convert_to_audio_def Let_def split: sum.splits prod.splits)

lemma transcribe_and_report_state:
  "snd (transcribe_and_report env jid fname n info p st) =
     st\<lparr>pm_calls := pm_calls st @ [Transcribe p (pm_files st p)]\<rparr>"
  by (simp add: transcribe_and_report_def transcribe_audio_def split: sum.splits prod.splits)

lemma process_media_files:
  "pm_files (snd (process_media env file jid fname st)) =
     (let temp_input_path = os_path_join TEMP_FILES_DIR (jid @ ''_'' @ fname);
          temp_audio_path = os_path_join TEMP_FILES_DIR (jid @ ''_audio.mp3'')
      in if length (uf_content file) > 150 * 1024 * 1024 then pm_files st
         else (case pm_open_write env temp_input_path (uf_content file) of
                 Written \<Rightarrow>
                   if file_extension fname \<in> set VIDEO_EXTENSIONS
                   then (pm_files st)(temp_input_path := None, temp_audio_path := None)
                   else (pm_files st)(temp_input_path := None)
               | OpenFailed e \<Rightarrow> (pm_files st)(temp_input_path := None)
               | WriteFailed e part \<Rightarrow> (pm_files st)(temp_input_path := None)))"
  by (auto simp: process_media_def process_media_try_def Let_def remove_if_exists_None
      remove_if_exists_Some os_path_join_nonempty extract_audio_info_state
      convert_to_audio_state transcribe_and_report_state
      split: write_outcome.splits prod.splits option.splits
      dest!: arg_cong [where f = snd])

lemma process_media_oversize:
  assumes "length (uf_content file) > 150 * 1024 * 1024"
  shows "process_media env file jid fname st =
           (Inl (HTTPException 500 (''Media processing failed: '' @
                   pm_http_str env 413 ''File size exceeds 150MB limit'')), st)"
  using assms
  by (simp add: process_media_def process_media_try_def Let_def remove_if_exists_None)

lemma process_media_calls_unsaved:
  assumes "pm_open_write env (os_path_join TEMP_FILES_DIR (jid @ ''_'' @ fname)) (uf_content file)
             \<noteq> Written"
  shows "pm_calls (snd (process_media env file jid fname st)) = pm_calls st"
  using assms
  by (simp add: process_media_def process_media_try_def Let_def
      split: write_outcome.splits)

lemma process_media_calls_audio:
  assumes "length (uf_content file) \<le> 150 * 1024 * 1024"
    and "pm_open_write env (os_path_join TEMP_FILES_DIR (jid @ ''_'' @ fname)) (uf_content file)
           = Written"
    and "file_extension fname \<notin> set VIDEO_EXTENSIONS"
  shows "pm_calls (snd (process_media env file jid fname st)) =
           pm_calls st @
             [Ffprobe (os_path_join TEMP_FILES_DIR (jid @ ''_'' @ fname)),
              Transcribe (os_path_join TEMP_FILES_DIR (jid @ ''_'' @ fname))
                (Some (uf_content file))]"
proof -
  let ?inp = "os_path_join TEMP_FILES_DIR (jid @ ''_'' @ fname)"
  let ?st1 = "st\<lparr>pm_files := (pm_files st)(?inp \<mapsto> uf_content file)\<rparr>"
  obtain info st2 where e: "extract_audio_info env ?inp ?st1 = (info, st2)"
    by (cases "extract_audio_info env ?inp ?st1")
  have st2: "st2 = ?st1\<lparr>pm_calls := pm_calls ?st1 @ [Ffprobe ?inp]\<rparr>"
    using extract_audio_info_state [of env ?inp ?st1] e by simp
  obtain r st4 where t: "transcribe_and_report env jid fname (length (uf_content file)) info
                           ?inp st2 = (r, st4)"
    by (cases "transcribe_and_report env jid fname (length (uf_content file)) info ?inp st2")
  have st4: "st4 = st2\<lparr>pm_calls := pm_calls st2 @ [Transcribe ?inp (pm_files st2 ?inp)]\<rparr>"
    using transcribe_and_report_state [of env jid fname "length (uf_content file)" info ?inp st2] t
    by simp
  have "process_media_try env file jid fname st = (r, st4, Some ?inp, None)"
    using assms e t by (simp add: process_media_try_def Let_def)
  then show ?thesis
    by (simp add: process_media_def st4 st2)
qed

lemma process_media_calls_video:
  assumes "length (uf_content file) \<le> 150 * 1024 * 1024"
    and "pm_open_write env (os_path_join TEMP_FILES_DIR (jid @ ''_'' @ fname)) (uf_content file)
           = Written"
    and "file_extension fname \<in> set VIDEO_EXTENSIONS"
  shows "pm_calls (snd (process_media env file jid fname st)) =
           (let temp_input_path = os_path_join TEMP_FILES_DIR (jid @ ''_'' @ fname);
                temp_audio_path = os_path_join TEMP_FILES_DIR (jid @ ''_audio.mp3'');
                fs1 = (pm_files st)(temp_input_path \<mapsto> uf_content file);
                ran = run_ffmpeg env
                        [''ffmpeg'', ''-i'', temp_input_path, ''-vn'', ''-acodec'', ''mp3'',
                         ''-ab'', ''192k'', ''-ar'', ''44100'', ''-y'', temp_audio_path] fs1
            in pm_calls st @
                 [Ffprobe temp_input_path, Ffmpeg temp_input_path temp_audio_path] @
                 (case fst ran of
                    Inl e \<Rightarrow> []
                  | Inr r \<Rightarrow>
                      if returncode r = 0
                      then [Transcribe temp_audio_path
                              (case snd ran of None \<Rightarrow> fs1 temp_audio_path | Some b \<Rightarrow> Some b)]
                      else []))"
proof -
  let ?inp = "os_path_join TEMP_FILES_DIR (jid @ ''_'' @ fname)"
  let ?aud = "os_path_join TEMP_FILES_DIR (jid @ ''_audio.mp3'')"
  let ?fs1 = "(pm_files st)(?inp \<mapsto> uf_content file)"
  let ?ran = "run_ffmpeg env [''ffmpeg'', ''-i'', ?inp, ''-vn'', ''-acodec'', ''mp3'',
                         ''-ab'', ''192k'', ''-ar'', ''44100'', ''-y'', ?aud] ?fs1"
  let ?st1 = "st\<lparr>pm_files := ?fs1\<rparr>"
  obtain info st2 where e: "extract_audio_info env ?inp ?st1 = (info, st2)"
    by (cases "extract_audio_info env ?inp ?st1")
  have st2: "st2 = ?st1\<lparr>pm_calls := pm_calls ?st1 @ [Ffprobe ?inp]\<rparr>"
    using extract_audio_info_state [of env ?inp ?st1] e by simp
  have fs2: "pm_files st2 = ?fs1" by (simp add: st2)
  obtain ok st3 where c: "convert_to_audio env ?inp ?aud st2 = (ok, st3)"
    by (cases "convert_to_audio env ?inp ?aud st2")
  have ok: "ok = (case fst ?ran of Inl e \<Rightarrow> False | Inr r \<Rightarrow> returncode r = 0)"
    using convert_to_audio_ok [of env ?inp ?aud st2] c by (simp add: fs2)
  have st3: "st3 = snd (convert_to_audio env ?inp ?aud st2)"
    using c by simp
  have files3: "pm_files st3 = (case snd ?ran of None \<Rightarrow> ?fs1 | Some b \<Rightarrow> ?fs1(?aud \<mapsto> b))"
    unfolding st3 convert_to_audio_state by (simp add: fs2 split: option.splits)
  have calls3: "pm_calls st3 = pm_calls st @ [Ffprobe ?inp, Ffmpeg ?inp ?aud]"
    unfolding st3 convert_to_audio_state by (simp add: st2)
  have aud3: "pm_files st3 ?aud = (case snd ?ran of None \<Rightarrow> ?fs1 ?aud | Some b \<Rightarrow> Some b)"
    by (simp add: files3 split: option.splits)
  show ?thesis
  proof (cases ok)
    case False
    have "process_media_try env file jid fname st =
            (Inl (HTTPException 500 ''Failed to convert video to audio''), st3, Some ?inp, Some ?aud)"
      using assms e c False by (simp add: process_media_try_def Let_def)
    then have A: "pm_calls (snd (process_media env file jid fname st)) = pm_calls st3"
      by (simp add: process_media_def)
    have B: "(case fst ?ran of Inl e \<Rightarrow> [] | Inr r \<Rightarrow>
                      if returncode r = 0
                      then [Transcribe ?aud (case snd ?ran of None \<Rightarrow> ?fs1 ?aud | Some b \<Rightarrow> Some b)]
                      else []) = []"
      using False ok by (auto split: sum.splits)
    show ?thesis unfolding Let_def A calls3 B by simp
  next
    case True
    obtain r st4 where t: "transcribe_and_report env jid fname (length (uf_content file)) info
                             ?aud st3 = (r, st4)"
      by (cases "transcribe_and_report env jid fname (length (uf_content file)) info ?aud st3")
    have st4: "pm_calls st4 = pm_calls st3 @ [Transcribe ?aud (pm_files st3 ?aud)]"
      using transcribe_and_report_state [of env jid fname "length (uf_content file)" info ?aud st3] t
      by simp
    have "process_media_try env file jid fname st = (r, st4, Some ?inp, Some ?aud)"
      using assms e c t True by (simp add: process_media_try_def Let_def)
    then have A: "pm_calls (snd (process_media env file jid fname st)) = pm_calls st4"
      by (simp add: process_media_def)
    have B: "(case fst ?ran of Inl e \<Rightarrow> [] | Inr r \<Rightarrow>
                      if returncode r = 0
                      then [Transcribe ?aud (case snd ?ran of None \<Rightarrow> ?fs1 ?aud | Some b \<Rightarrow> Some b)]
                      else []) =
                   [Transcribe ?aud (case snd ?ran of None \<Rightarrow> ?fs1 ?aud | Some b \<Rightarrow> Some b)]"
      using True ok by (auto split: sum.splits)
    show ?thesis unfolding Let_def A st4 calls3 aud3 B by simp
  qed
qed


lemma example_paths:
  "os_path_join TEMP_FILES_DIR ''job1_clip.MP4'' = ''/app/temp_files/job1_clip.MP4''"
  "os_path_join TEMP_FILES_DIR ''job1_audio.mp3'' = ''/app/temp_files/job1_audio.mp3''"
  "os_path_join TEMP_FILES_DIR ''job2_song.mp3'' = ''/app/temp_files/job2_song.mp3''"
  by (simp_all add: os_path_join_def TEMP_FILES_DIR_def endswith_def suffix_to_prefix)

lemma example_extensions:
  "file_extension ''clip.MP4'' = ''mp4''"
  "file_extension ''song.mp3'' = ''mp3''"
  by code_simp+

section \<open>Cleanup in the media processor\<close>

text \<open>
  Claim C3. After \<^verbatim>\<open>process_media\<close>, however the request went (rejected for its size,
  not saved, transcoder failed, recognition failed, or answered), every file left in the
  file system was there before with the same bytes; when the upload passed the size
  check, nothing is stored at the upload's temporary path (job id, underscore, file
  name); and when the transcoder was reached, nothing is stored at the path of the
  transcoded audio (job id and \<^verbatim>\<open>_audio.mp3\<close>). The removal is the one
  \<^verbatim>\<open>finally\<close> block of the handler.
\<close>

theorem process_media_leaves_no_temp_files:
  "pm_files (snd (process_media env file jid fname st)) \<subseteq>\<^sub>m pm_files st \<and>
   (length (uf_content file) \<le> 150 * 1024 * 1024 \<longrightarrow>
      os_path_join TEMP_FILES_DIR (jid @ ''_'' @ fname)
        \<notin> dom (pm_files (snd (process_media env file jid fname st)))) \<and>
   (length (uf_content file) \<le> 150 * 1024 * 1024 \<and>
    pm_open_write env (os_path_join TEMP_FILES_DIR (jid @ ''_'' @ fname)) (uf_content file)
      = Written \<and>
    file_extension fname \<in> set VIDEO_EXTENSIONS \<longrightarrow>
      os_path_join TEMP_FILES_DIR (jid @ ''_audio.mp3'')
        \<notin> dom (pm_files (snd (process_media env file jid fname st))))"
  unfolding process_media_files Let_def
  by (auto simp: map_le_def split: write_outcome.splits)

theorem process_media_leaves_no_temp_files_witness:
  "length (uf_content clip_upload) \<le> 150 * 1024 * 1024 \<and>
   pm_open_write failing_model_env ''/app/temp_files/job1_clip.MP4'' (uf_content clip_upload)
     = Written \<and>
   file_extension ''clip.MP4'' \<in> set VIDEO_EXTENSIONS \<and>
   ''/app/temp_files/job1_clip.MP4''
     \<notin> dom (pm_files (snd (process_media failing_model_env clip_upload ''job1'' ''clip.MP4''
                               empty_pm_state))) \<and>
   ''/app/temp_files/job1_audio.mp3''
     \<notin> dom (pm_files (snd (process_media failing_model_env clip_upload ''job1'' ''clip.MP4''
                               empty_pm_state)))"
proof -
  have size: "length (uf_content clip_upload) \<le> 150 * 1024 * 1024"
    by (simp add: clip_upload_def)
  have saved: "pm_open_write failing_model_env ''/app/temp_files/job1_clip.MP4''
                 (uf_content clip_upload) = Written"
    by (simp add: failing_model_env_def working_pm_env_def)
  have video: "file_extension ''clip.MP4'' \<in> set VIDEO_EXTENSIONS"
    by (simp add: example_extensions VIDEO_EXTENSIONS_def)
  show ?thesis
    using size saved video
      process_media_leaves_no_temp_files
        [of failing_model_env clip_upload "''job1''" "''clip.MP4''" empty_pm_state]
    by (simp add: example_paths)
qed

section \<open>Transcoding by extension\<close>

lemma transcode_by_extension_when_saved:
  assumes size: "length (uf_content file) \<le> 150 * 1024 * 1024"
    and saved: "pm_open_write env (os_path_join TEMP_FILES_DIR (jid @ ''_'' @ fname))
                  (uf_content file) = Written"
  shows
    "(let temp_input_path = os_path_join TEMP_FILES_DIR (jid @ ''_'' @ fname);
          temp_audio_path = os_path_join TEMP_FILES_DIR (jid @ ''_audio.mp3'');
          fs1 = (pm_files st)(temp_input_path \<mapsto> uf_content file);
          ran = run_ffmpeg env
                  [''ffmpeg'', ''-i'', temp_input_path, ''-vn'', ''-acodec'', ''mp3'',
                   ''-ab'', ''192k'', ''-ar'', ''44100'', ''-y'', temp_audio_path] fs1;
          new_calls = drop (length (pm_calls st))
                        (pm_calls (snd (process_media env file jid fname st)))
      in ((\<exists>i outp. Ffmpeg i outp \<in> set new_calls) \<longleftrightarrow>
            file_extension fname \<in> set VIDEO_EXTENSIONS) \<and>
         (file_extension fname \<in> set VIDEO_EXTENSIONS \<longrightarrow>
            new_calls =
              [Ffprobe temp_input_path, Ffmpeg temp_input_path temp_audio_path] @
              (case fst ran of
                 Inl e \<Rightarrow> []
               | Inr r \<Rightarrow>
                   if returncode r = 0
                   then [Transcribe temp_audio_path
                           (case snd ran of None \<Rightarrow> fs1 temp_audio_path | Some b \<Rightarrow> Some b)]
                   else [])) \<and>
         (file_extension fname \<notin> set VIDEO_EXTENSIONS \<longrightarrow>
            new_calls = [Ffprobe temp_input_path,
                         Transcribe temp_input_path (Some (uf_content file))]) \<and>
         file_extension fname =
           (if CHR ''.'' \<in> set fname then str_lower (after_last_dot fname) else []))"
proof (cases "file_extension fname \<in> set VIDEO_EXTENSIONS")
  case True
  show ?thesis
    unfolding Let_def process_media_calls_video [OF size saved True, unfolded Let_def]
    using True
    by (simp only: append_eq_conv_conj drop_append length_append refl
          file_extension_after_last_dot [symmetric])
       (auto simp: file_extension_after_last_dot [symmetric])
next
  case False
  show ?thesis
    unfolding Let_def process_media_calls_audio [OF size saved False]
    using False by (auto simp: file_extension_after_last_dot [symmetric])
qed

text \<open>
  Claim C5. In every request \<^verbatim>\<open>process_media\<close> calls the transcoder only if the
  extension of the file name is one of the seven video extensions, where the extension
  is the lowercased part after the last dot (and empty without a dot). For an upload that
  passes the size check and is saved, it calls the transcoder exactly when the extension
  is one of them. For a video name the calls are the probe, the transcoder, and
  then, only if the transcoder exited with 0, the recognition model on the transcoded
  path with the bytes the transcoder left there. For any other name they are the probe
  and the recognition model on the saved upload with the uploaded bytes.
\<close>

theorem transcode_iff_video_extension:
  "(let temp_input_path = os_path_join TEMP_FILES_DIR (jid @ ''_'' @ fname);
        temp_audio_path = os_path_join TEMP_FILES_DIR (jid @ ''_audio.mp3'');
        fs1 = (pm_files st)(temp_input_path \<mapsto> uf_content file);
        ran = run_ffmpeg env
                [''ffmpeg'', ''-i'', temp_input_path, ''-vn'', ''-acodec'', ''mp3'',
                 ''-ab'', ''192k'', ''-ar'', ''44100'', ''-y'', temp_audio_path] fs1;
        new_calls = drop (length (pm_calls st))
                      (pm_calls (snd (process_media env file jid fname st)))
    in ((\<exists>i outp. Ffmpeg i outp \<in> set new_calls) \<longrightarrow>
          file_extension fname \<in> set VIDEO_EXTENSIONS) \<and>
       (length (uf_content file) \<le> 150 * 1024 * 1024 \<and>
        pm_open_write env temp_input_path (uf_content file) = Written \<longrightarrow>
          ((\<exists>i outp. Ffmpeg i outp \<in> set new_calls) \<longleftrightarrow>
             file_extension fname \<in> set VIDEO_EXTENSIONS) \<and>
          (file_extension fname \<in> set VIDEO_EXTENSIONS \<longrightarrow>
             new_calls =
               [Ffprobe temp_input_path, Ffmpeg temp_input_path temp_audio_path] @
               (case fst ran of
                  Inl e \<Rightarrow> []
                | Inr r \<Rightarrow>
                    if returncode r = 0
                    then [Transcribe temp_audio_path
                            (case snd ran of None \<Rightarrow> fs1 temp_audio_path | Some b \<Rightarrow> Some b)]
                    else [])) \<and>
          (file_extension fname \<notin> set VIDEO_EXTENSIONS \<longrightarrow>
             new_calls = [Ffprobe temp_input_path,
                          Transcribe temp_input_path (Some (uf_content file))])) \<and>
       file_extension fname =
         (if CHR ''.'' \<in> set fname then str_lower (after_last_dot fname) else []))"
proof (cases "length (uf_content file) \<le> 150 * 1024 * 1024 \<and>
              pm_open_write env (os_path_join TEMP_FILES_DIR (jid @ ''_'' @ fname))
                (uf_content file) = Written")
  case True
  then have size: "length (uf_content file) \<le> 150 * 1024 * 1024"
    and saved: "pm_open_write env (os_path_join TEMP_FILES_DIR (jid @ ''_'' @ fname))
                  (uf_content file) = Written"
    by simp_all
  show ?thesis
    using transcode_by_extension_when_saved [OF size saved, of st] True
    unfolding Let_def by blast
next
  case False
  have "pm_calls (snd (process_media env file jid fname st)) = pm_calls st"
  proof (cases "length (uf_content file) \<le> 150 * 1024 * 1024")
    case True
    with False show ?thesis by (simp add: process_media_calls_unsaved)
  next
    case False
    then show ?thesis by (simp add: process_media_oversize)
  qed
  then have "drop (length (pm_calls st))
               (pm_calls (snd (process_media env file jid fname st))) = []"
    by simp
  then show ?thesis
    using False unfolding Let_def
    by (simp add: file_extension_after_last_dot [symmetric])
qed

theorem transcode_iff_video_extension_witness:
  "pm_calls (snd (process_media working_pm_env clip_upload ''job1'' ''clip.MP4'' empty_pm_state)) =
     [Ffprobe ''/app/temp_files/job1_clip.MP4'',
      Ffmpeg ''/app/temp_files/job1_clip.MP4'' ''/app/temp_files/job1_audio.mp3'',
      Transcribe ''/app/temp_files/job1_audio.mp3'' (Some [73, 68, 51])] \<and>
   pm_calls (snd (process_media working_pm_env song_upload ''job2'' ''song.mp3'' empty_pm_state)) =
     [Ffprobe ''/app/temp_files/job2_song.mp3'',
      Transcribe ''/app/temp_files/job2_song.mp3'' (Some [7, 8, 9])]"
proof
  have size: "length (uf_content clip_upload) \<le> 150 * 1024 * 1024"
    by (simp add: clip_upload_def)
  have saved: "pm_open_write working_pm_env (os_path_join TEMP_FILES_DIR (''job1'' @ ''_'' @ ''clip.MP4''))
                 (uf_content clip_upload) = Written"
    by (simp add: working_pm_env_def)
  have video: "file_extension ''clip.MP4'' \<in> set VIDEO_EXTENSIONS"
    by (simp add: example_extensions VIDEO_EXTENSIONS_def)
  have ran: "run_ffmpeg working_pm_env cmd fs =
               (Inr \<lparr>returncode = 0, stdout = [], stderr = []\<rparr>, Some [73, 68, 51])" for cmd fs
    by (simp add: working_pm_env_def)
  have s0: "pm_calls empty_pm_state = []" by (simp add: empty_pm_state_def)
  show "pm_calls (snd (process_media working_pm_env clip_upload ''job1'' ''clip.MP4'' empty_pm_state)) =
     [Ffprobe ''/app/temp_files/job1_clip.MP4'',
      Ffmpeg ''/app/temp_files/job1_clip.MP4'' ''/app/temp_files/job1_audio.mp3'',
      Transcribe ''/app/temp_files/job1_audio.mp3'' (Some [73, 68, 51])]"
    using transcode_iff_video_extension
        [of "''job1''" "''clip.MP4''" empty_pm_state clip_upload working_pm_env] size saved video
    by (simp add: Let_def ran s0 example_paths)
next
  have size: "length (uf_content song_upload) \<le> 150 * 1024 * 1024"
    by (simp add: song_upload_def)
  have saved: "pm_open_write working_pm_env (os_path_join TEMP_FILES_DIR (''job2'' @ ''_'' @ ''song.mp3''))
                 (uf_content song_upload) = Written"
    by (simp add: working_pm_env_def)
  have audio: "file_extension ''song.mp3'' \<notin> set VIDEO_EXTENSIONS"
    by (simp add: example_extensions VIDEO_EXTENSIONS_def)
  have s0: "pm_calls empty_pm_state = []" by (simp add: empty_pm_state_def)
  have c: "uf_content song_upload = [7, 8, 9]" by (simp add: song_upload_def)
  show "pm_calls (snd (process_media working_pm_env song_upload ''job2'' ''song.mp3'' empty_pm_state)) =
     [Ffprobe ''/app/temp_files/job2_song.mp3'',
      Transcribe ''/app/temp_files/job2_song.mp3'' (Some [7, 8, 9])]"
    using transcode_iff_video_extension
        [of "''job2''" "''song.mp3''" empty_pm_state song_upload working_pm_env] size saved audio
    by (simp add: Let_def s0 c example_paths)
qed


section \<open>Voice validation at the gateway\<close>

text \<open>
  Claim C4. For a text submission whose voice type is neither \<^verbatim>\<open>male\<close> nor
  \<^verbatim>\<open>female\<close>, \<^verbatim>\<open>text_to_audio\<close> raises (the rejection of the voice type, as the outer
  handler reports it) and the list of downstream calls is as it was: no request is sent
  to the synthesizer.
\<close>

theorem invalid_voice_rejected_before_downstream:
  assumes "ta_voice_type request \<noteq> ''male''" and "ta_voice_type request \<noteq> ''female''"
  shows "text_to_audio env request st =
           (Inl (HTTPException 500
                   (''Internal server error: '' @
                    gw_http_str env 400 (''Voice type must be 'male' or 'female'' @ [CHR 0x27]))),
            st) \<and>
         gw_calls (snd (text_to_audio env request st)) = gw_calls st"
  using assms by (simp add: text_to_audio_def text_to_audio_try_def Let_def)

theorem invalid_voice_rejected_before_downstream_witness:
  "ta_voice_type robot_request \<noteq> ''male'' \<and> ta_voice_type robot_request \<noteq> ''female'' \<and>
   isl (fst (text_to_audio working_gw_env robot_request empty_gw_state)) \<and>
   gw_calls (snd (text_to_audio working_gw_env robot_request empty_gw_state)) = []"
proof -
  have a: "ta_voice_type robot_request \<noteq> ''male''" by (simp add: robot_request_def)
  have b: "ta_voice_type robot_request \<noteq> ''female''" by (simp add: robot_request_def)
  have s0: "gw_calls empty_gw_state = []" by (simp add: empty_gw_state_def)
  show ?thesis
    using a b invalid_voice_rejected_before_downstream [OF a b, of working_gw_env empty_gw_state]
    by (simp add: s0)
qed

section \<open>The file name chosen by the gateway\<close>

lemma random_choices_lowercase:
  "random_choices rnd ascii_lowercase 10 =
     Inr (map (\<lambda>i. ascii_lowercase ! (rnd i mod length ascii_lowercase)) [0..<10]) \<and>
   length (map (\<lambda>i. ascii_lowercase ! (rnd i mod length ascii_lowercase)) [0..<10]) = 10 \<and>
   set (map (\<lambda>i. ascii_lowercase ! (rnd i mod length ascii_lowercase)) [0..<10])
     \<subseteq> set ascii_lowercase"
proof -
  have len: "length ascii_lowercase = 26" by (simp add: ascii_lowercase_def)
  let ?name = "map (\<lambda>i. ascii_lowercase ! (rnd i mod length ascii_lowercase)) [0..<10]"
  have "random_choices rnd ascii_lowercase 10 = Inr ?name"
    using len by (auto simp: random_choices_def)
  moreover have "length ?name = 10" by simp
  moreover have "set ?name \<subseteq> set ascii_lowercase"
    using len by (auto intro!: nth_mem)
  ultimately show ?thesis by blast
qed

lemma every_lowercase_name_is_drawn:
  assumes "length name = 10" and "set name \<subseteq> set ascii_lowercase"
  shows "\<exists>rnd. random_choices rnd ascii_lowercase 10 = Inr name"
proof -
  have "\<forall>i. \<exists>j. i < 10 \<longrightarrow> j < length ascii_lowercase \<and> ascii_lowercase ! j = name ! i"
  proof (intro allI)
    fix i
    show "\<exists>j. i < 10 \<longrightarrow> j < length ascii_lowercase \<and> ascii_lowercase ! j = name ! i"
    proof (cases "i < 10")
      case True
      then have "name ! i \<in> set ascii_lowercase" using assms by auto
      then show ?thesis by (auto simp: in_set_conv_nth)
    next
      case False
      then show ?thesis by simp
    qed
  qed
  then obtain rnd where rnd:
    "\<And>i. i < 10 \<Longrightarrow> rnd i < length ascii_lowercase \<and> ascii_lowercase ! rnd i = name ! i"
    by metis
  have "map (\<lambda>i. ascii_lowercase ! (rnd i mod length ascii_lowercase)) [0..<10] = name"
    using assms(1) rnd by (intro nth_equalityI) auto
  moreover have "ascii_lowercase \<noteq> []" by (simp add: ascii_lowercase_def)
  ultimately show ?thesis by (auto simp: random_choices_def)
qed

lemma after_last_dot_mp3: "after_last_dot (s @ ''.mp3'') = ''mp3''"
  by (simp add: after_last_dot_def)

lemma file_extension_mp3: "file_extension (s @ ''.mp3'') = ''mp3''"
proof -
  have "str_lower ''mp3'' = ''mp3''" by code_simp
  then show ?thesis
    by (simp add: file_extension_after_last_dot after_last_dot_mp3)
qed

lemma text_to_audio_filename_cases:
  "(\<not> truthy (ta_filename request) \<longrightarrow>
      text_to_audio_filename env request =
        Inr (map (\<lambda>i. ascii_lowercase ! (random_draw env i mod length ascii_lowercase)) [0..<10]
             @ ''.mp3'')) \<and>
   (truthy (ta_filename request) \<longrightarrow>
      text_to_audio_filename env request =
        Inr (if endswith (the (ta_filename request)) ''.mp3'' then the (ta_filename request)
             else the (ta_filename request) @ ''.mp3''))"
  using random_choices_lowercase [of "random_draw env"]
  by (auto simp: text_to_audio_filename_def Let_def)

lemma text_to_audio_response_filename:
  assumes "text_to_audio env request st = (Inr resp, st')"
  shows "text_to_audio_filename env request = Inr (a_filename resp)"
  using assms
  by (auto simp: text_to_audio_def text_to_audio_try_def Let_def
      split: sum.splits if_splits prod.splits)

lemma endswith_mp3_extension:
  assumes "endswith s ''.mp3''"
  shows "file_extension s = ''mp3''"
proof -
  from assms obtain t where "s = t @ ''.mp3''" by (auto simp: endswith_def suffix_def)
  then show ?thesis by (simp only: file_extension_mp3)
qed

lemma ten_draws: "random_choices (\<lambda>i. 7 * i + 3) ascii_lowercase 10 = Inr ''dkryfmtaho''"
  by code_simp

lemma unnamed_run:
  "text_to_audio working_gw_env unnamed_request empty_gw_state =
     (Inr \<lparr>a_id = ''0b5f3c2e-job'', a_filename = ''dkryfmtaho.mp3'',
           a_audio_url = ''/api/v1/download/0b5f3c2e-job'', a_voice_type = ''male'',
           a_status = ''completed''\<rparr>,
      \<lparr>gw_files = Map.empty,
       gw_calls = [PostGenerateSpeech ''0b5f3c2e-job'' ''Hello world'' ''male'' ''dkryfmtaho.mp3'']\<rparr>)"
  by (simp add: text_to_audio_def text_to_audio_try_def text_to_audio_filename_def Let_def
      working_gw_env_def unnamed_request_def empty_gw_state_def ten_draws)

lemma wav_run:
  "text_to_audio working_gw_env wav_request empty_gw_state =
     (Inr \<lparr>a_id = ''0b5f3c2e-job'', a_filename = ''speech.wav.mp3'',
           a_audio_url = ''/api/v1/download/0b5f3c2e-job'', a_voice_type = ''female'',
           a_status = ''completed''\<rparr>,
      \<lparr>gw_files = Map.empty,
       gw_calls = [PostGenerateSpeech ''0b5f3c2e-job'' ''Hello world'' ''female'' ''speech.wav.mp3'']\<rparr>)"
  by (simp add: text_to_audio_def text_to_audio_try_def text_to_audio_filename_def Let_def
      working_gw_env_def wav_request_def empty_gw_state_def endswith_def suffix_to_prefix)

text \<open>
  Claim C7. Whenever \<^verbatim>\<open>text_to_audio\<close> answers with a response: if the request has no
  file name (none, or the empty string), the response's file name is the ten letters
  that the random source draws from the lowercase ASCII alphabet, in the order drawn,
  followed by \<^verbatim>\<open>.mp3\<close> (so ten lowercase letters and the extension; every such
  name is drawn by some random source); if it has one, the response's file
  name is that name when it ends in \<^verbatim>\<open>.mp3\<close> and that name followed by \<^verbatim>\<open>.mp3\<close>
  otherwise, so it always ends in \<^verbatim>\<open>.mp3\<close> and its extension is \<^verbatim>\<open>mp3\<close>.
\<close>

theorem text_to_audio_filename_mp3:
  assumes "text_to_audio env request st = (Inr resp, st')"
  shows "(\<not> truthy (ta_filename request) \<longrightarrow>
            a_filename resp =
              map (\<lambda>i. ascii_lowercase ! (random_draw env i mod length ascii_lowercase)) [0..<10]
              @ ''.mp3'' \<and>
            (\<exists>name. a_filename resp = name @ ''.mp3'' \<and> length name = 10 \<and>
                    set name \<subseteq> set ascii_lowercase)) \<and>
         (truthy (ta_filename request) \<longrightarrow>
            a_filename resp =
              (if endswith (the (ta_filename request)) ''.mp3'' then the (ta_filename request)
               else the (ta_filename request) @ ''.mp3'') \<and>
            endswith (a_filename resp) ''.mp3'' \<and>
            file_extension (a_filename resp) = ''mp3'')"
proof (intro conjI impI)
  assume "\<not> truthy (ta_filename request)"
  then show eq: "a_filename resp =
              map (\<lambda>i. ascii_lowercase ! (random_draw env i mod length ascii_lowercase)) [0..<10]
              @ ''.mp3''"
    using text_to_audio_filename_cases [of request env]
      text_to_audio_response_filename [OF assms] by auto
  show "\<exists>name. a_filename resp = name @ ''.mp3'' \<and> length name = 10 \<and>
                    set name \<subseteq> set ascii_lowercase"
    using eq random_choices_lowercase [of "random_draw env"] by blast
next
  assume t: "truthy (ta_filename request)"
  then show eq: "a_filename resp =
              (if endswith (the (ta_filename request)) ''.mp3'' then the (ta_filename request)
               else the (ta_filename request) @ ''.mp3'')"
    using text_to_audio_filename_cases [of request env]
      text_to_audio_response_filename [OF assms] by auto
  then show e: "endswith (a_filename resp) ''.mp3''"
    by (auto simp: endswith_def intro: suffixI)
  then show "file_extension (a_filename resp) = ''mp3''"
    by (rule endswith_mp3_extension)
qed

theorem text_to_audio_filename_mp3_witness:
  "\<not> truthy (ta_filename unnamed_request) \<and>
   map_sum id a_filename (fst (text_to_audio working_gw_env unnamed_request empty_gw_state)) =
     Inr (map (\<lambda>i. ascii_lowercase ! (random_draw working_gw_env i mod length ascii_lowercase))
            [0..<10] @ ''.mp3'') \<and>
   map (\<lambda>i. ascii_lowercase ! (random_draw working_gw_env i mod length ascii_lowercase)) [0..<10]
     = ''dkryfmtaho'' \<and>
   truthy (ta_filename wav_request) \<and>
   map_sum id a_filename (fst (text_to_audio working_gw_env wav_request empty_gw_state)) =
     Inr ''speech.wav.mp3'' \<and>
   endswith ''speech.wav.mp3'' ''.mp3'' \<and>
   file_extension ''speech.wav.mp3'' = ''mp3''"
proof -
  let ?draws = "map (\<lambda>i. ascii_lowercase ! (random_draw working_gw_env i mod length ascii_lowercase))
                  [0..<10]"
  have u: "\<not> truthy (ta_filename unnamed_request)" by (simp add: unnamed_request_def)
  have w: "truthy (ta_filename wav_request)" by (simp add: wav_request_def)
  have "''dkryfmtaho.mp3'' = ?draws @ ''.mp3''"
    using text_to_audio_filename_mp3 [OF unnamed_run, unfolded TextToAudioResponse.select_convs] u
    by blast
  then have D: "?draws = ''dkryfmtaho''" by simp
  have A: "map_sum id a_filename
             (fst (text_to_audio working_gw_env unnamed_request empty_gw_state)) =
           Inr (?draws @ ''.mp3'')"
    by (simp add: unnamed_run D)
  have B: "endswith ''speech.wav.mp3'' ''.mp3'' \<and> file_extension ''speech.wav.mp3'' = ''mp3''"
    using text_to_audio_filename_mp3 [OF wav_run, unfolded TextToAudioResponse.select_convs] w
    by blast
  have C: "map_sum id a_filename (fst (text_to_audio working_gw_env wav_request empty_gw_state)) =
     Inr ''speech.wav.mp3''"
    by (simp add: wav_run)
  from u w D A B C show ?thesis by blast
qed


section \<open>The size limit on uploads\<close>

lemma media_to_text_oversize:
  assumes "150 * 1024 * 1024 < length (uf_content file)"
  shows "media_to_text_try env file st =
           (Inl (HTTPException 413 ''File size exceeds 150MB limit''), st)"
    and "media_to_text env file st =
           (Inl (HTTPException 500 (''Internal server error: '' @
                   gw_http_str env 413 ''File size exceeds 150MB limit'')), st)"
  using assms by (simp_all add: media_to_text_def media_to_text_try_def Let_def)

lemma media_to_text_state:
  assumes "length (uf_content file) \<le> 150 * 1024 * 1024"
    and "gw_open_write env
           (os_path_join TEMP_FILES_DIR
              (uuid4 env @ ''_'' @ str_or (uf_filename file) (''audio_'' @ take 8 (uuid4 env) @ ''.mp3'')))
           (uf_content file) = Written"
  shows "snd (media_to_text env file st) =
     (let fname = str_or (uf_filename file) (''audio_'' @ take 8 (uuid4 env) @ ''.mp3'');
          temp_file_path = os_path_join TEMP_FILES_DIR (uuid4 env @ ''_'' @ fname)
      in \<lparr>gw_files =
            (case post_process_media env (uuid4 env) fname (uf_content file) of
               Inl e \<Rightarrow> (gw_files st)(temp_file_path \<mapsto> uf_content file)
             | Inr response \<Rightarrow> (gw_files st)(temp_file_path := None)),
          gw_calls = gw_calls st @
            [PostProcessMedia (uuid4 env) fname (uf_content_type file) (uf_content file)]\<rparr>)"
  using assms
  by (simp add: media_to_text_def media_to_text_try_def Let_def split: sum.splits)

lemma process_media_probes_when_saved:
  assumes "length (uf_content file) \<le> 150 * 1024 * 1024"
    and "pm_open_write env (os_path_join TEMP_FILES_DIR (jid @ ''_'' @ fname)) (uf_content file)
           = Written"
  shows "\<exists>rest. pm_calls (snd (process_media env file jid fname st)) =
           pm_calls st @ Ffprobe (os_path_join TEMP_FILES_DIR (jid @ ''_'' @ fname)) # rest"
proof (cases "file_extension fname \<in> set VIDEO_EXTENSIONS")
  case True
  show ?thesis
    unfolding process_media_calls_video [OF assms True] Let_def by simp
next
  case False
  show ?thesis
    unfolding process_media_calls_audio [OF assms False] by simp
qed

text \<open>
  Claim C8. An upload of more than \<open>150 * 1024 * 1024\<close> bytes is rejected by
  \<^verbatim>\<open>media_to_text\<close> and by \<^verbatim>\<open>process_media\<close>, both leaving their state as it was: no
  file is written, the gateway sends nothing to the processor, and the processor calls
  neither the probe, the transcoder nor the recognition model. An upload of exactly that
  many bytes passes the size check in both: once saved, the gateway posts it to the
  processor, and the processor goes on to probe it.
\<close>

theorem oversize_upload_rejected_without_processing:
  "(150 * 1024 * 1024 < length (uf_content file) \<longrightarrow>
      media_to_text genv file gst =
        (Inl (HTTPException 500 (''Internal server error: '' @
                gw_http_str genv 413 ''File size exceeds 150MB limit'')), gst) \<and>
      process_media penv file jid fname pst =
        (Inl (HTTPException 500 (''Media processing failed: '' @
                pm_http_str penv 413 ''File size exceeds 150MB limit'')), pst)) \<and>
   (length (uf_content file) = 150 * 1024 * 1024 \<longrightarrow>
      (gw_open_write genv
         (os_path_join TEMP_FILES_DIR
            (uuid4 genv @ ''_'' @
             str_or (uf_filename file) (''audio_'' @ take 8 (uuid4 genv) @ ''.mp3'')))
         (uf_content file) = Written \<longrightarrow>
       gw_calls (snd (media_to_text genv file gst)) =
         gw_calls gst @
           [PostProcessMedia (uuid4 genv)
              (str_or (uf_filename file) (''audio_'' @ take 8 (uuid4 genv) @ ''.mp3''))
              (uf_content_type file) (uf_content file)]) \<and>
      (pm_open_write penv (os_path_join TEMP_FILES_DIR (jid @ ''_'' @ fname)) (uf_content file)
         = Written \<longrightarrow>
       (\<exists>rest. pm_calls (snd (process_media penv file jid fname pst)) =
          pm_calls pst @ Ffprobe (os_path_join TEMP_FILES_DIR (jid @ ''_'' @ fname)) # rest)))"
proof (intro conjI impI)
  assume "150 * 1024 * 1024 < length (uf_content file)"
  then show "media_to_text genv file gst =
        (Inl (HTTPException 500 (''Internal server error: '' @
                gw_http_str genv 413 ''File size exceeds 150MB limit'')), gst)"
    and "process_media penv file jid fname pst =
        (Inl (HTTPException 500 (''Media processing failed: '' @
                pm_http_str penv 413 ''File size exceeds 150MB limit'')), pst)"
    by (rule media_to_text_oversize, rule process_media_oversize)
next
  assume len: "length (uf_content file) = 150 * 1024 * 1024"
    and "gw_open_write genv
         (os_path_join TEMP_FILES_DIR
            (uuid4 genv @ ''_'' @
             str_or (uf_filename file) (''audio_'' @ take 8 (uuid4 genv) @ ''.mp3'')))
         (uf_content file) = Written"
  then show "gw_calls (snd (media_to_text genv file gst)) =
         gw_calls gst @
           [PostProcessMedia (uuid4 genv)
              (str_or (uf_filename file) (''audio_'' @ take 8 (uuid4 genv) @ ''.mp3''))
              (uf_content_type file) (uf_content file)]"
    by (subst media_to_text_state) (simp_all add: Let_def)
next
  assume len: "length (uf_content file) = 150 * 1024 * 1024"
    and w: "pm_open_write penv (os_path_join TEMP_FILES_DIR (jid @ ''_'' @ fname)) (uf_content file)
         = Written"
  from len have "length (uf_content file) \<le> 150 * 1024 * 1024" by simp
  then show "\<exists>rest. pm_calls (snd (process_media penv file jid fname pst)) =
          pm_calls pst @ Ffprobe (os_path_join TEMP_FILES_DIR (jid @ ''_'' @ fname)) # rest"
    using w by (rule process_media_probes_when_saved)
qed

theorem oversize_upload_rejected_without_processing_witness:
  "150 * 1024 * 1024 < length (uf_content oversize_upload) \<and>
   length (uf_content limit_upload) = 150 * 1024 * 1024 \<and>
   isl (fst (media_to_text working_gw_env oversize_upload empty_gw_state)) \<and>
   gw_calls (snd (media_to_text working_gw_env oversize_upload empty_gw_state)) = [] \<and>
   isl (fst (process_media working_pm_env oversize_upload ''job1'' ''big.mp4'' empty_pm_state)) \<and>
   pm_calls (snd (process_media working_pm_env oversize_upload ''job1'' ''big.mp4'' empty_pm_state))
     = [] \<and>
   gw_calls (snd (media_to_text working_gw_env limit_upload empty_gw_state)) =
     [PostProcessMedia ''0b5f3c2e-job'' ''song.mp3'' (Some ''audio/mpeg'')
        (replicate (150 * 1024 * 1024) 0)] \<and>
   (\<exists>rest. pm_calls (snd (process_media working_pm_env limit_upload ''job2'' ''song.mp3''
                            empty_pm_state)) =
      Ffprobe ''/app/temp_files/job2_song.mp3'' # rest)"
proof -
  have big: "150 * 1024 * 1024 < length (uf_content oversize_upload)"
    by (simp add: oversize_upload_def)
  have lim: "length (uf_content limit_upload) = 150 * 1024 * 1024"
    by (simp add: limit_upload_def)
  have gw: "gw_open_write working_gw_env p b = Written" for p b
    by (simp add: working_gw_env_def)
  have pw: "pm_open_write working_pm_env p b = Written" for p b
    by (simp add: working_pm_env_def)
  have g0: "gw_calls empty_gw_state = []" by (simp add: empty_gw_state_def)
  have p0: "pm_calls empty_pm_state = []" by (simp add: empty_pm_state_def)
  have u: "uuid4 working_gw_env = ''0b5f3c2e-job''" by (simp add: working_gw_env_def)
  have f: "uf_filename limit_upload = Some ''song.mp3''"
    "uf_content_type limit_upload = Some ''audio/mpeg''"
    "uf_content limit_upload = replicate (150 * 1024 * 1024) 0"
    by (simp_all add: limit_upload_def)
  note t1 = oversize_upload_rejected_without_processing
    [of oversize_upload working_gw_env empty_gw_state working_pm_env "''job1''" "''big.mp4''"
        empty_pm_state]
  note t2 = oversize_upload_rejected_without_processing
    [of limit_upload working_gw_env empty_gw_state working_pm_env "''job2''" "''song.mp3''"
        empty_pm_state]
  from t1 big have A:
    "isl (fst (media_to_text working_gw_env oversize_upload empty_gw_state)) \<and>
     gw_calls (snd (media_to_text working_gw_env oversize_upload empty_gw_state)) = [] \<and>
     isl (fst (process_media working_pm_env oversize_upload ''job1'' ''big.mp4'' empty_pm_state)) \<and>
     pm_calls (snd (process_media working_pm_env oversize_upload ''job1'' ''big.mp4'' empty_pm_state))
       = []"
    by (simp add: g0 p0)
  from t2 lim have B:
    "gw_calls (snd (media_to_text working_gw_env limit_upload empty_gw_state)) =
       [PostProcessMedia ''0b5f3c2e-job'' ''song.mp3'' (Some ''audio/mpeg'')
          (replicate (150 * 1024 * 1024) 0)] \<and>
     (\<exists>rest. pm_calls (snd (process_media working_pm_env limit_upload ''job2'' ''song.mp3''
                            empty_pm_state)) =
        Ffprobe ''/app/temp_files/job2_song.mp3'' # rest)"
    by (simp add: gw pw g0 p0 u f example_paths)
  from big lim A B show ?thesis by blast
qed

section \<open>The gateway's temporary file\<close>

text \<open>
  For an upload that passed the size check and was saved, the gateway's temporary file is
  gone after the handler whenever the processor answered, with whatever status; when the
  request to the processor raised, the file is still there.
\<close>

lemma media_to_text_removes_temp_file_when_answered:
  assumes "length (uf_content file) \<le> 150 * 1024 * 1024"
    and "gw_open_write env
           (os_path_join TEMP_FILES_DIR
              (uuid4 env @ ''_'' @ str_or (uf_filename file) (''audio_'' @ take 8 (uuid4 env) @ ''.mp3'')))
           (uf_content file) = Written"
    and "post_process_media env (uuid4 env)
           (str_or (uf_filename file) (''audio_'' @ take 8 (uuid4 env) @ ''.mp3''))
           (uf_content file) = Inr response"
  shows "os_path_join TEMP_FILES_DIR
           (uuid4 env @ ''_'' @ str_or (uf_filename file) (''audio_'' @ take 8 (uuid4 env) @ ''.mp3''))
         \<notin> dom (gw_files (snd (media_to_text env file st)))"
  using assms(3) by (simp add: media_to_text_state [OF assms(1,2)] Let_def)

lemma media_to_text_keeps_temp_file_when_call_raises:
  assumes "length (uf_content file) \<le> 150 * 1024 * 1024"
    and "gw_open_write env
           (os_path_join TEMP_FILES_DIR
              (uuid4 env @ ''_'' @ str_or (uf_filename file) (''audio_'' @ take 8 (uuid4 env) @ ''.mp3'')))
           (uf_content file) = Written"
    and "post_process_media env (uuid4 env)
           (str_or (uf_filename file) (''audio_'' @ take 8 (uuid4 env) @ ''.mp3''))
           (uf_content file) = Inl e"
  shows "gw_files (snd (media_to_text env file st))
           (os_path_join TEMP_FILES_DIR
              (uuid4 env @ ''_'' @ str_or (uf_filename file) (''audio_'' @ take 8 (uuid4 env) @ ''.mp3'')))
         = Some (uf_content file)"
  using assms(3) by (simp add: media_to_text_state [OF assms(1,2)] Let_def)

text \<open>
  Claim C2 says that the temporary file is deleted on every path, also when the request to
  the processor raises. It is not: with a processor that times out, the handler ends with
  status 500 and the file written for the upload is still stored.
\<close>

theorem media_to_text_timeout_leaves_temp_file:
  "fst (media_to_text timeout_gw_env song_upload empty_gw_state) =
     Inl (HTTPException 500 ''Internal server error: ReadTimeout'') \<and>
   gw_files (snd (media_to_text timeout_gw_env song_upload empty_gw_state))
     ''/app/temp_files/0b5f3c2e-job_song.mp3'' = Some [7, 8, 9]"
  by (simp add: media_to_text_def media_to_text_try_def Let_def timeout_gw_env_def
      working_gw_env_def song_upload_def empty_gw_state_def os_path_join_def TEMP_FILES_DIR_def
      endswith_def suffix_to_prefix)

section \<open>The status of rejected requests\<close>

text \<open>
  Every exception that leaves a handler was raised by its outer \<^verbatim>\<open>except Exception\<close>
  clause, so its status is 500.
\<close>

lemma handlers_raise_only_500:
  "fst (media_to_text genv file gst) = Inl e \<Longrightarrow> exc_status e = Some 500"
  "fst (text_to_audio genv request gst) = Inl e \<Longrightarrow> exc_status e = Some 500"
  "fst (process_media penv file jid fname pst) = Inl e \<Longrightarrow> exc_status e = Some 500"
  "fst (generate_speech tenv trequest tst) = Inl e \<Longrightarrow> exc_status e = Some 500"
  "tts_download_file h fs jid fname = Inl e \<Longrightarrow> exc_status e = Some 500"
  by (auto simp: media_to_text_def text_to_audio_def process_media_def generate_speech_def
      tts_download_file_def Let_def split: prod.splits sum.splits)

text \<open>
  Claim C1 says that client input errors are answered with a 4xx status. The handlers
  raise the 4xx exception inside their \<^verbatim>\<open>try\<close> block, where the outer
  \<^verbatim>\<open>except Exception\<close> clause catches it and raises status 500 in its place: for an
  oversized upload at the gateway and at the processor, for an unknown voice type at the
  gateway and at the synthesizer, and for a blank and an overlong text at the synthesizer.
\<close>

theorem client_errors_answered_with_500:
  "fst (media_to_text_try working_gw_env oversize_upload empty_gw_state) =
     Inl (HTTPException 413 ''File size exceeds 150MB limit'') \<and>
   map_sum exc_status id (fst (media_to_text working_gw_env oversize_upload empty_gw_state)) =
     Inl (Some 500) \<and>
   map_sum exc_status id
     (fst (process_media working_pm_env oversize_upload ''job1'' ''big.mp4'' empty_pm_state)) =
     Inl (Some 500) \<and>
   map_sum exc_status id (fst (text_to_audio working_gw_env robot_request empty_gw_state)) =
     Inl (Some 500) \<and>
   validate_tts robot_tts_request =
     Some (HTTPException 400 (''Voice type must be 'male' or 'female'' @ [CHR 0x27])) \<and>
   map_sum exc_status id (fst (generate_speech offline_env robot_tts_request empty_tts_state)) =
     Inl (Some 500) \<and>
   validate_tts blank_tts_request = Some (HTTPException 400 ''Text cannot be empty'') \<and>
   map_sum exc_status id (fst (generate_speech offline_env blank_tts_request empty_tts_state)) =
     Inl (Some 500) \<and>
   validate_tts long_tts_request =
     Some (HTTPException 400 ''Text is too long (max 5000 characters)'') \<and>
   map_sum exc_status id (fst (generate_speech offline_env long_tts_request empty_tts_state)) =
     Inl (Some 500)"
proof -
  have big: "150 * 1024 * 1024 < length (uf_content oversize_upload)"
    by (simp add: oversize_upload_def)
  have v1: "validate_tts robot_tts_request =
     Some (HTTPException 400 (''Voice type must be 'male' or 'female'' @ [CHR 0x27]))"
    by (simp add: validate_tts_def robot_tts_request_def)
  have v2: "validate_tts blank_tts_request = Some (HTTPException 400 ''Text cannot be empty'')"
    by (simp add: validate_tts_def blank_tts_request_def str_strip_def is_space_def)
  have v3: "validate_tts long_tts_request =
     Some (HTTPException 400 ''Text is too long (max 5000 characters)'')"
    by (simp add: validate_tts_def long_tts_request_def)
  have r: "ta_voice_type robot_request \<noteq> ''male''" "ta_voice_type robot_request \<noteq> ''female''"
    by (simp_all add: robot_request_def)
  have t: "text_to_audio_try env robot_request st =
     (Inl (HTTPException 400 (''Voice type must be 'male' or 'female'' @ [CHR 0x27])), st)" for env st
    using r by (simp add: text_to_audio_try_def Let_def)
  show ?thesis
    by (simp add: media_to_text_oversize [OF big] process_media_oversize [OF big]
        text_to_audio_def t generate_speech_def generate_speech_try_def v1 v2 v3)
qed



end
